theory Spec2Isabelle
  imports Main
begin

section \<open>Pins, levels and the signal heads\<close>

text \<open>
  The controller is an Arduino sketch: global variables, \<^verbatim>\<open>digitalWrite\<close> on eight
  output pins, \<^verbatim>\<open>digitalRead\<close> on three button pins. Pins are the \<^verbatim>\<open>const int\<close>
  numbers of the source; a level is a \<^verbatim>\<open>bool\<close> (\<^verbatim>\<open>HIGH\<close> is true, \<^verbatim>\<open>LOW\<close> is false).
  The pin numbers and the \<^verbatim>\<open>set*State\<close> helpers are the same text in
  \<^verbatim>\<open>main.cpp\<close> and \<^verbatim>\<open>main_withlcd.cpp\<close>, so they are modelled once.

  The display (\<^verbatim>\<open>lcd.*\<close>, \<^verbatim>\<open>lcdShowTwoLines\<close>) and the passing of time
  (\<^verbatim>\<open>delay\<close>) change no variable and no signal pin; they are left out of the state.
\<close>

type_synonym pin = int

abbreviation HIGH :: bool where "HIGH \<equiv> True"
abbreviation LOW :: bool where "LOW \<equiv> False"

definition PIN_NS_RED :: pin where "PIN_NS_RED = 2"
definition PIN_NS_YELLOW :: pin where "PIN_NS_YELLOW = 4"
definition PIN_NS_GREEN :: pin where "PIN_NS_GREEN = 5"

definition PIN_EW_RED :: pin where "PIN_EW_RED = 18"
definition PIN_EW_YELLOW :: pin where "PIN_EW_YELLOW = 19"
definition PIN_EW_GREEN :: pin where "PIN_EW_GREEN = 21"

definition PIN_PED_RED :: pin where "PIN_PED_RED = 22"
definition PIN_PED_GREEN :: pin where "PIN_PED_GREEN = 23"

definition PIN_BTN_NS_TRAFFIC :: pin where "PIN_BTN_NS_TRAFFIC = 12"
definition PIN_BTN_EW_TRAFFIC :: pin where "PIN_BTN_EW_TRAFFIC = 13"
definition PIN_BTN_PED_REQUEST :: pin where "PIN_BTN_PED_REQUEST = 14"

definition YELLOW_TIME_SEC :: int where "YELLOW_TIME_SEC = 3"
definition PED_TIME_SEC :: int where "PED_TIME_SEC = 8"
definition BASE_GREEN_SEC :: int where "BASE_GREEN_SEC = 10"
definition MAX_TRAFFIC_COUNT :: int where "MAX_TRAFFIC_COUNT = 10"

text \<open>
  The output side: the level every pin currently drives, and the sequence of writes made
  so far, oldest first. The write sequence is what an observer of the lamps sees; the
  level map is its running result.
\<close>

record outputs =
  level :: "pin \<Rightarrow> bool"
  wlog :: "(pin \<times> bool) list"

definition digitalWrite :: "pin \<Rightarrow> bool \<Rightarrow> outputs \<Rightarrow> outputs" where
  "digitalWrite p v out =
     out\<lparr>level := (level out)(p := v), wlog := wlog out @ [(p, v)]\<rparr>"

definition setAllVehicleRed :: "outputs \<Rightarrow> outputs" where
  "setAllVehicleRed out =
     (let out = digitalWrite PIN_NS_RED HIGH out;
          out = digitalWrite PIN_NS_YELLOW LOW out;
          out = digitalWrite PIN_NS_GREEN LOW out;
          out = digitalWrite PIN_EW_RED HIGH out;
          out = digitalWrite PIN_EW_YELLOW LOW out;
          out = digitalWrite PIN_EW_GREEN LOW out
      in out)"

definition setNsGreenState :: "outputs \<Rightarrow> outputs" where
  "setNsGreenState out =
     (let out = setAllVehicleRed out;
          out = digitalWrite PIN_NS_RED LOW out;
          out = digitalWrite PIN_NS_GREEN HIGH out
      in out)"

definition setNsYellowState :: "outputs \<Rightarrow> outputs" where
  "setNsYellowState out =
     (let out = setAllVehicleRed out;
          out = digitalWrite PIN_NS_RED LOW out;
          out = digitalWrite PIN_NS_YELLOW HIGH out
      in out)"

definition setEwGreenState :: "outputs \<Rightarrow> outputs" where
  "setEwGreenState out =
     (let out = setAllVehicleRed out;
          out = digitalWrite PIN_EW_RED LOW out;
          out = digitalWrite PIN_EW_GREEN HIGH out
      in out)"

definition setEwYellowState :: "outputs \<Rightarrow> outputs" where
  "setEwYellowState out =
     (let out = setAllVehicleRed out;
          out = digitalWrite PIN_EW_RED LOW out;
          out = digitalWrite PIN_EW_YELLOW HIGH out
      in out)"

definition setPedestrianGreenState :: "outputs \<Rightarrow> outputs" where
  "setPedestrianGreenState out =
     (let out = setAllVehicleRed out;
          out = digitalWrite PIN_PED_RED LOW out;
          out = digitalWrite PIN_PED_GREEN HIGH out
      in out)"

section \<open>The variables of the two sketches\<close>

datatype Phase =
  PHASE_NS_GREEN | PHASE_NS_YELLOW | PHASE_EW_GREEN | PHASE_EW_YELLOW | PHASE_PED_GREEN

text \<open>
  \<^verbatim>\<open>main_withlcd.cpp\<close> has the variables of \<open>vars\<close>; \<^verbatim>\<open>main.cpp\<close> has the same
  and \<^verbatim>\<open>currentPhase\<close>. The counters are C++ \<^verbatim>\<open>int\<close>; each is reset once per cycle
  and grows by at most one per button sample, so it stays far from the 32-bit limit
  and is modelled as an unbounded integer. \<open>reads\<close> counts the calls of
  \<^verbatim>\<open>readButtons\<close> made so far: it indexes the samples the buttons deliver.
\<close>

record vars =
  trafficCountNS :: int
  trafficCountEW :: int
  pedRequest :: bool
  lastNsBtnState :: bool
  lastEwBtnState :: bool
  lastPedBtnState :: bool
  pins :: outputs
  reads :: nat

record ctrl = vars +
  currentPhase :: Phase

text \<open>
  The buttons: \<open>inp n p\<close> is the level \<^verbatim>\<open>digitalRead(p)\<close> returns during the
  \<open>n\<close>-th call of \<^verbatim>\<open>readButtons\<close>.
\<close>

type_synonym buttons = "nat \<Rightarrow> pin \<Rightarrow> bool"

definition digitalRead :: "buttons \<Rightarrow> nat \<Rightarrow> pin \<Rightarrow> bool" where
  "digitalRead inp n p = inp n p"

section \<open>Loops\<close>

text \<open>
  \<^verbatim>\<open>for (int i = 0; i < n; i++) body\<close> and
  \<^verbatim>\<open>for (int remaining = n; remaining > 0; remaining--) body\<close>, for bodies that use
  the loop variable only on the display.
\<close>

function forUpTo :: "int \<Rightarrow> int \<Rightarrow> ('s \<Rightarrow> 's) \<Rightarrow> 's \<Rightarrow> 's" where
  "forUpTo i n body s = (if i < n then forUpTo (i + 1) n body (body s) else s)"
  by pat_completeness auto
termination
  by (relation "measure (\<lambda>(i, n, body, s). nat (n - i))") auto

function forRemaining :: "int \<Rightarrow> ('s \<Rightarrow> 's) \<Rightarrow> 's \<Rightarrow> 's" where
  "forRemaining remaining body s =
     (if remaining > 0 then forRemaining (remaining - 1) body (body s) else s)"
  by pat_completeness auto
termination
  by (relation "measure (\<lambda>(remaining, body, s). nat remaining)") auto

declare forUpTo.simps [simp del] forRemaining.simps [simp del]

section \<open>main.cpp\<close>

definition isNsRed :: "ctrl \<Rightarrow> bool" where
  "isNsRed s =
     (currentPhase s = PHASE_EW_GREEN \<or>
      currentPhase s = PHASE_EW_YELLOW \<or>
      currentPhase s = PHASE_PED_GREEN)"

definition isEwRed :: "ctrl \<Rightarrow> bool" where
  "isEwRed s =
     (currentPhase s = PHASE_NS_GREEN \<or>
      currentPhase s = PHASE_NS_YELLOW \<or>
      currentPhase s = PHASE_PED_GREEN)"

definition readButtons :: "buttons \<Rightarrow> ctrl \<Rightarrow> ctrl" where
  "readButtons inp s =
     (let n = reads s;
          nsBtn = digitalRead inp n PIN_BTN_NS_TRAFFIC;
          s = (if nsBtn = LOW \<and> lastNsBtnState s = HIGH
               then (if isNsRed s then s\<lparr>trafficCountNS := trafficCountNS s + 1\<rparr> else s)
               else s);
          s = s\<lparr>lastNsBtnState := nsBtn\<rparr>;
          ewBtn = digitalRead inp n PIN_BTN_EW_TRAFFIC;
          s = (if ewBtn = LOW \<and> lastEwBtnState s = HIGH
               then (if isEwRed s then s\<lparr>trafficCountEW := trafficCountEW s + 1\<rparr> else s)
               else s);
          s = s\<lparr>lastEwBtnState := ewBtn\<rparr>;
          pedBtn = digitalRead inp n PIN_BTN_PED_REQUEST;
          s = (if pedBtn = LOW \<and> lastPedBtnState s = HIGH
               then s\<lparr>pedRequest := True\<rparr>
               else s);
          s = s\<lparr>lastPedBtnState := pedBtn\<rparr>
      in s\<lparr>reads := n + 1\<rparr>)"

definition waitOneSecondWithButtons :: "buttons \<Rightarrow> ctrl \<Rightarrow> ctrl" where
  "waitOneSecondWithButtons inp s = forUpTo 0 50 (readButtons inp) s"

definition computeNsGreenSeconds :: "ctrl \<Rightarrow> int" where
  "computeNsGreenSeconds s =
     (let extra = (if trafficCountNS s \<ge> 15 then 30
                   else if trafficCountNS s \<ge> 10 then 20
                   else if trafficCountNS s \<ge> 5 then 10
                   else 0)
      in BASE_GREEN_SEC + extra)"

definition computeEwGreenSeconds :: "ctrl \<Rightarrow> int" where
  "computeEwGreenSeconds s =
     (let extra = (if trafficCountEW s \<ge> 15 then 30
                   else if trafficCountEW s \<ge> 10 then 20
                   else if trafficCountEW s \<ge> 5 then 10
                   else 0)
      in BASE_GREEN_SEC + extra)"

definition phaseNsGreen :: "buttons \<Rightarrow> ctrl \<Rightarrow> ctrl" where
  "phaseNsGreen inp s =
     (let s = s\<lparr>currentPhase := PHASE_NS_GREEN\<rparr>;
          totalSecs = computeNsGreenSeconds s;
          s = s\<lparr>pins := setNsGreenState (pins s)\<rparr>;
          s = forRemaining totalSecs (waitOneSecondWithButtons inp) s
      in s\<lparr>trafficCountNS := 0\<rparr>)"

definition phaseNsYellow :: "buttons \<Rightarrow> ctrl \<Rightarrow> ctrl" where
  "phaseNsYellow inp s =
     (let s = s\<lparr>currentPhase := PHASE_NS_YELLOW\<rparr>
      in forRemaining YELLOW_TIME_SEC
           (\<lambda>s. waitOneSecondWithButtons inp (s\<lparr>pins := setNsYellowState (pins s)\<rparr>)) s)"

definition phaseEwGreen :: "buttons \<Rightarrow> ctrl \<Rightarrow> ctrl" where
  "phaseEwGreen inp s =
     (let s = s\<lparr>currentPhase := PHASE_EW_GREEN\<rparr>;
          totalSecs = computeEwGreenSeconds s;
          s = s\<lparr>pins := setEwGreenState (pins s)\<rparr>;
          s = forRemaining totalSecs (waitOneSecondWithButtons inp) s
      in s\<lparr>trafficCountEW := 0\<rparr>)"

definition phaseEwYellow :: "buttons \<Rightarrow> ctrl \<Rightarrow> ctrl" where
  "phaseEwYellow inp s =
     (let s = s\<lparr>currentPhase := PHASE_EW_YELLOW\<rparr>
      in forRemaining YELLOW_TIME_SEC
           (\<lambda>s. waitOneSecondWithButtons inp (s\<lparr>pins := setEwYellowState (pins s)\<rparr>)) s)"

definition phasePedestrianIfRequested :: "buttons \<Rightarrow> ctrl \<Rightarrow> ctrl" where
  "phasePedestrianIfRequested inp s =
     (if \<not> pedRequest s then s
      else
        let s = s\<lparr>currentPhase := PHASE_PED_GREEN\<rparr>;
            s = s\<lparr>pins := setPedestrianGreenState (pins s)\<rparr>;
            s = forRemaining PED_TIME_SEC (waitOneSecondWithButtons inp) s;
            s = s\<lparr>pins := setAllVehicleRed (pins s)\<rparr>;
            s = s\<lparr>pins := digitalWrite PIN_PED_RED HIGH (pins s)\<rparr>;
            s = s\<lparr>pins := digitalWrite PIN_PED_GREEN LOW (pins s)\<rparr>
        in s\<lparr>pedRequest := False\<rparr>)"

definition loop :: "buttons \<Rightarrow> ctrl \<Rightarrow> ctrl" where
  "loop inp s =
     (let s = phaseNsGreen inp s;
          s = phaseNsYellow inp s;
          s = phasePedestrianIfRequested inp s;
          s = phaseEwGreen inp s;
          s = phaseEwYellow inp s;
          s = phasePedestrianIfRequested inp s
      in s)"

section \<open>main_withlcd.cpp\<close>

text \<open>
  The second sketch has no \<^verbatim>\<open>currentPhase\<close>: a press counts whatever the lamps show,
  up to \<^verbatim>\<open>MAX_TRAFFIC_COUNT\<close>, the green time has three tiers, and the buttons are
  read once per second of dwell. Its \<^verbatim>\<open>set*State\<close> helpers are the ones above. Its
  other functions carry the suffix \<open>_lcd\<close> here.
\<close>

definition readButtons_lcd :: "buttons \<Rightarrow> vars \<Rightarrow> vars" where
  "readButtons_lcd inp s =
     (let n = reads s;
          currentNs = digitalRead inp n PIN_BTN_NS_TRAFFIC;
          s = (if currentNs = LOW \<and> lastNsBtnState s = HIGH
               then (if trafficCountNS s < MAX_TRAFFIC_COUNT
                     then s\<lparr>trafficCountNS := trafficCountNS s + 1\<rparr> else s)
               else s);
          s = s\<lparr>lastNsBtnState := currentNs\<rparr>;
          currentEw = digitalRead inp n PIN_BTN_EW_TRAFFIC;
          s = (if currentEw = LOW \<and> lastEwBtnState s = HIGH
               then (if trafficCountEW s < MAX_TRAFFIC_COUNT
                     then s\<lparr>trafficCountEW := trafficCountEW s + 1\<rparr> else s)
               else s);
          s = s\<lparr>lastEwBtnState := currentEw\<rparr>;
          currentPed = digitalRead inp n PIN_BTN_PED_REQUEST;
          s = (if currentPed = LOW \<and> lastPedBtnState s = HIGH
               then s\<lparr>pedRequest := True\<rparr>
               else s);
          s = s\<lparr>lastPedBtnState := currentPed\<rparr>
      in s\<lparr>reads := n + 1\<rparr>)"

definition computeNsGreenSeconds_lcd :: "vars \<Rightarrow> int" where
  "computeNsGreenSeconds_lcd s =
     (if trafficCountNS s \<le> 3 then 10
      else if trafficCountNS s \<le> 7 then 20
      else 30)"

definition computeEwGreenSeconds_lcd :: "vars \<Rightarrow> int" where
  "computeEwGreenSeconds_lcd s =
     (if trafficCountEW s \<le> 3 then 10
      else if trafficCountEW s \<le> 7 then 20
      else 30)"

definition phasePedestrianIfRequested_lcd :: "buttons \<Rightarrow> vars \<Rightarrow> vars" where
  "phasePedestrianIfRequested_lcd inp s =
     (if \<not> pedRequest s then s
      else
        let s = s\<lparr>pins := setPedestrianGreenState (pins s)\<rparr>;
            s = forUpTo 0 PED_TIME_SEC (readButtons_lcd inp) s;
            s = s\<lparr>pins := setAllVehicleRed (pins s)\<rparr>;
            s = s\<lparr>pins := digitalWrite PIN_PED_RED HIGH (pins s)\<rparr>;
            s = s\<lparr>pins := digitalWrite PIN_PED_GREEN LOW (pins s)\<rparr>
        in s\<lparr>pedRequest := False\<rparr>)"

definition phaseNsGreen_lcd :: "buttons \<Rightarrow> vars \<Rightarrow> vars" where
  "phaseNsGreen_lcd inp s =
     (let greenSeconds = computeNsGreenSeconds_lcd s;
          s = s\<lparr>pins := setNsGreenState (pins s)\<rparr>;
          s = forUpTo 0 greenSeconds (readButtons_lcd inp) s
      in s\<lparr>trafficCountNS := 0\<rparr>)"

definition phaseNsYellow_lcd :: "buttons \<Rightarrow> vars \<Rightarrow> vars" where
  "phaseNsYellow_lcd inp s =
     (let s = s\<lparr>pins := setNsYellowState (pins s)\<rparr>
      in forUpTo 0 YELLOW_TIME_SEC (readButtons_lcd inp) s)"

definition phaseEwGreen_lcd :: "buttons \<Rightarrow> vars \<Rightarrow> vars" where
  "phaseEwGreen_lcd inp s =
     (let greenSeconds = computeEwGreenSeconds_lcd s;
          s = s\<lparr>pins := setEwGreenState (pins s)\<rparr>;
          s = forUpTo 0 greenSeconds (readButtons_lcd inp) s
      in s\<lparr>trafficCountEW := 0\<rparr>)"

definition phaseEwYellow_lcd :: "buttons \<Rightarrow> vars \<Rightarrow> vars" where
  "phaseEwYellow_lcd inp s =
     (let s = s\<lparr>pins := setEwYellowState (pins s)\<rparr>
      in forUpTo 0 YELLOW_TIME_SEC (readButtons_lcd inp) s)"

definition loop_lcd :: "buttons \<Rightarrow> vars \<Rightarrow> vars" where
  "loop_lcd inp s =
     (let s = phaseNsGreen_lcd inp s;
          s = phaseNsYellow_lcd inp s;
          s = phasePedestrianIfRequested_lcd inp s;
          s = phaseEwGreen_lcd inp s;
          s = phaseEwYellow_lcd inp s;
          s = phasePedestrianIfRequested_lcd inp s
      in s)"

text \<open>
  The initialisers of the global variables, and \<^verbatim>\<open>setup()\<close> (named
  \<open>setup_sketch\<close> here, the plain name being reserved). The level of an output
  pin before its first write is taken to be \<^verbatim>\<open>LOW\<close>.
\<close>

definition powerOn :: outputs where
  "powerOn = \<lparr>level = (\<lambda>p. LOW), wlog = []\<rparr>"

definition initial_lcd :: vars where
  "initial_lcd =
     \<lparr>trafficCountNS = 0, trafficCountEW = 0, pedRequest = False,
      lastNsBtnState = HIGH, lastEwBtnState = HIGH, lastPedBtnState = HIGH,
      pins = powerOn, reads = 0\<rparr>"

definition initial :: ctrl where
  "initial =
     \<lparr>trafficCountNS = 0, trafficCountEW = 0, pedRequest = False,
      lastNsBtnState = HIGH, lastEwBtnState = HIGH, lastPedBtnState = HIGH,
      pins = powerOn, reads = 0, currentPhase = PHASE_NS_GREEN\<rparr>"

definition setup_sketch :: "ctrl \<Rightarrow> ctrl" where
  "setup_sketch s =
     (let s = s\<lparr>pins := setAllVehicleRed (pins s)\<rparr>;
          s = s\<lparr>pins := digitalWrite PIN_PED_RED HIGH (pins s)\<rparr>;
          s = s\<lparr>pins := digitalWrite PIN_PED_GREEN LOW (pins s)\<rparr>
      in s)"

section \<open>Vocabulary of the properties\<close>

subsection \<open>What the lamps show\<close>

text \<open>
  A vehicle head shows red when its red lamp is lit and its yellow and green lamps are
  dark; it shows green or yellow when its red lamp is dark and exactly one of the other
  two is lit.
\<close>

definition nsShowsRed :: "(pin \<Rightarrow> bool) \<Rightarrow> bool" where
  "nsShowsRed lv = (lv PIN_NS_RED \<and> \<not> lv PIN_NS_YELLOW \<and> \<not> lv PIN_NS_GREEN)"

definition ewShowsRed :: "(pin \<Rightarrow> bool) \<Rightarrow> bool" where
  "ewShowsRed lv = (lv PIN_EW_RED \<and> \<not> lv PIN_EW_YELLOW \<and> \<not> lv PIN_EW_GREEN)"

definition nsShowsGo :: "(pin \<Rightarrow> bool) \<Rightarrow> bool" where
  "nsShowsGo lv = (lv PIN_NS_RED = LOW \<and> lv PIN_NS_YELLOW \<noteq> lv PIN_NS_GREEN)"

definition ewShowsGo :: "(pin \<Rightarrow> bool) \<Rightarrow> bool" where
  "ewShowsGo lv = (lv PIN_EW_RED = LOW \<and> lv PIN_EW_YELLOW \<noteq> lv PIN_EW_GREEN)"

definition oneAxisAtMost :: "(pin \<Rightarrow> bool) \<Rightarrow> bool" where
  "oneAxisAtMost lv =
     ((nsShowsRed lv \<and> ewShowsRed lv) \<or>
      (nsShowsGo lv \<and> ewShowsRed lv) \<or>
      (nsShowsRed lv \<and> ewShowsGo lv))"

definition pedestrianShowsGreen :: "(pin \<Rightarrow> bool) \<Rightarrow> bool" where
  "pedestrianShowsGreen lv = (lv PIN_PED_GREEN \<and> lv PIN_PED_RED = LOW)"

subsection \<open>Write sequences\<close>

text \<open>
  The writes an operation appends to the log, and the levels of all pins after each of
  them in turn: the intermediate points of the operation.
\<close>

definition newWrites :: "(outputs \<Rightarrow> outputs) \<Rightarrow> outputs \<Rightarrow> (pin \<times> bool) list" where
  "newWrites op out = drop (length (wlog out)) (wlog (op out))"

fun snapshots :: "(pin \<Rightarrow> bool) \<Rightarrow> (pin \<times> bool) list \<Rightarrow> (pin \<Rightarrow> bool) list" where
  "snapshots lv [] = []"
| "snapshots lv ((p, v) # ws) = lv(p := v) # snapshots (lv(p := v)) ws"

definition intermediate :: "(outputs \<Rightarrow> outputs) \<Rightarrow> outputs \<Rightarrow> (pin \<Rightarrow> bool) list" where
  "intermediate op out = snapshots (level out) (newWrites op out)"

text \<open>
  The number of lit green and yellow vehicle lamps; two lit lamps on one head.
\<close>

definition goLamps :: "(pin \<Rightarrow> bool) \<Rightarrow> nat" where
  "goLamps lv =
     length (filter lv [PIN_NS_YELLOW, PIN_NS_GREEN, PIN_EW_YELLOW, PIN_EW_GREEN])"

definition twoOnOneHead :: "(pin \<Rightarrow> bool) \<Rightarrow> bool" where
  "twoOnOneHead lv =
     (2 \<le> length (filter lv [PIN_NS_RED, PIN_NS_YELLOW, PIN_NS_GREEN]) \<or>
      2 \<le> length (filter lv [PIN_EW_RED, PIN_EW_YELLOW, PIN_EW_GREEN]) \<or>
      2 \<le> length (filter lv [PIN_PED_RED, PIN_PED_GREEN]))"

subsection \<open>Button samples\<close>

text \<open>
  \<open>presses inp p prev r n\<close> counts the released-to-pressed transitions of button \<open>p\<close>
  among the samples \<open>r, \<dots>, r + n - 1\<close>, the level before sample \<open>r\<close> being \<open>prev\<close>;
  \<open>lastSample\<close> is the level of the last of these samples (\<open>prev\<close> when there is none).
\<close>

fun presses :: "buttons \<Rightarrow> pin \<Rightarrow> bool \<Rightarrow> nat \<Rightarrow> nat \<Rightarrow> nat" where
  "presses inp p prev r 0 = 0"
| "presses inp p prev r (Suc n) =
     (if inp r p = LOW \<and> prev = HIGH then 1 else 0) + presses inp p (inp r p) (Suc r) n"

fun lastSample :: "buttons \<Rightarrow> pin \<Rightarrow> bool \<Rightarrow> nat \<Rightarrow> nat \<Rightarrow> bool" where
  "lastSample inp p prev r 0 = prev"
| "lastSample inp p prev r (Suc n) = lastSample inp p (inp r p) (Suc r) n"

text \<open>
  The variables of \<^verbatim>\<open>main.cpp\<close> after \<open>n\<close> further button samples, written out:
  what \<open>n\<close> calls of \<^verbatim>\<open>readButtons\<close> are shown to compute.
\<close>

definition sampled :: "buttons \<Rightarrow> nat \<Rightarrow> ctrl \<Rightarrow> ctrl" where
  "sampled inp n s =
     s\<lparr>trafficCountNS := trafficCountNS s +
          (if isNsRed s then int (presses inp PIN_BTN_NS_TRAFFIC (lastNsBtnState s) (reads s) n) else 0),
       trafficCountEW := trafficCountEW s +
          (if isEwRed s then int (presses inp PIN_BTN_EW_TRAFFIC (lastEwBtnState s) (reads s) n) else 0),
       pedRequest := pedRequest s \<or> 0 < presses inp PIN_BTN_PED_REQUEST (lastPedBtnState s) (reads s) n,
       lastNsBtnState := lastSample inp PIN_BTN_NS_TRAFFIC (lastNsBtnState s) (reads s) n,
       lastEwBtnState := lastSample inp PIN_BTN_EW_TRAFFIC (lastEwBtnState s) (reads s) n,
       lastPedBtnState := lastSample inp PIN_BTN_PED_REQUEST (lastPedBtnState s) (reads s) n,
       reads := reads s + n\<rparr>"

text \<open>
  The same for \<^verbatim>\<open>main_withlcd.cpp\<close>, where a counter below \<^verbatim>\<open>MAX_TRAFFIC_COUNT\<close>
  grows by one per press up to that bound and a counter at or above it stays.
\<close>

definition capped :: "int \<Rightarrow> nat \<Rightarrow> int" where
  "capped c k = (if c < MAX_TRAFFIC_COUNT then min MAX_TRAFFIC_COUNT (c + int k) else c)"

definition sampled_lcd :: "buttons \<Rightarrow> nat \<Rightarrow> vars \<Rightarrow> vars" where
  "sampled_lcd inp n s =
     s\<lparr>trafficCountNS := capped (trafficCountNS s)
          (presses inp PIN_BTN_NS_TRAFFIC (lastNsBtnState s) (reads s) n),
       trafficCountEW := capped (trafficCountEW s)
          (presses inp PIN_BTN_EW_TRAFFIC (lastEwBtnState s) (reads s) n),
       pedRequest := pedRequest s \<or> 0 < presses inp PIN_BTN_PED_REQUEST (lastPedBtnState s) (reads s) n,
       lastNsBtnState := lastSample inp PIN_BTN_NS_TRAFFIC (lastNsBtnState s) (reads s) n,
       lastEwBtnState := lastSample inp PIN_BTN_EW_TRAFFIC (lastEwBtnState s) (reads s) n,
       lastPedBtnState := lastSample inp PIN_BTN_PED_REQUEST (lastPedBtnState s) (reads s) n,
       reads := reads s + n\<rparr>"

text \<open>
  A concrete button input: the listed buttons are held down at the listed samples, and
  every button is released otherwise.
\<close>

definition heldAt :: "(pin \<times> nat) list \<Rightarrow> buttons" where
  "heldAt xs n p = ((p, n) \<notin> set xs)"

text \<open>
  A second concrete input: button \<open>p\<close> is held down from sample \<open>a\<close> up to, not
  including, sample \<open>b\<close>, and every button is released otherwise.
\<close>

definition heldFromTo :: "pin \<Rightarrow> nat \<Rightarrow> nat \<Rightarrow> buttons" where
  "heldFromTo p a b n q = (\<not> (q = p \<and> a \<le> n \<and> n < b))"

text \<open>
  Sample \<open>k\<close> of button \<open>p\<close> is pressed and the sample before it was released: a
  new press arrives at sample \<open>k\<close>.
\<close>

definition pressEdge :: "buttons \<Rightarrow> pin \<Rightarrow> nat \<Rightarrow> bool" where
  "pressEdge inp p k = (inp k p = LOW \<and> inp (k - 1) p = HIGH)"


text \<open>
  Two inputs deliver the same traffic button samples, or the same samples of all three
  buttons, at the \<open>n\<close> samples from \<open>r\<close> on.
\<close>

definition sameTraffic :: "buttons \<Rightarrow> buttons \<Rightarrow> nat \<Rightarrow> nat \<Rightarrow> bool" where
  "sameTraffic inp1 inp2 r n =
     (\<forall>k<n. inp1 (r + k) PIN_BTN_NS_TRAFFIC = inp2 (r + k) PIN_BTN_NS_TRAFFIC \<and>
            inp1 (r + k) PIN_BTN_EW_TRAFFIC = inp2 (r + k) PIN_BTN_EW_TRAFFIC)"


text \<open>
  The number of button samples between two insertion points: those of a green dwell,
  whose length depends on the counter at its start, and of the yellow dwell after it;
  and the number of samples of the pedestrian dwell. In \<^verbatim>\<open>main.cpp\<close> a second has 50
  samples, in \<^verbatim>\<open>main_withlcd.cpp\<close> one.
\<close>

definition nsWindow :: "ctrl \<Rightarrow> nat" where
  "nsWindow s = 50 * nat (computeNsGreenSeconds s) + 50 * nat YELLOW_TIME_SEC"

definition ewWindow :: "ctrl \<Rightarrow> nat" where
  "ewWindow s = 50 * nat (computeEwGreenSeconds s) + 50 * nat YELLOW_TIME_SEC"

definition pedWindow :: nat where
  "pedWindow = 50 * nat PED_TIME_SEC"

definition nsWindow_lcd :: "vars \<Rightarrow> nat" where
  "nsWindow_lcd s = nat (computeNsGreenSeconds_lcd s) + nat YELLOW_TIME_SEC"

definition ewWindow_lcd :: "vars \<Rightarrow> nat" where
  "ewWindow_lcd s = nat (computeEwGreenSeconds_lcd s) + nat YELLOW_TIME_SEC"

definition pedWindow_lcd :: nat where
  "pedWindow_lcd = nat PED_TIME_SEC"

text \<open>The number of times the pedestrian head has been switched to green.\<close>

definition pedestrianPhases :: "ctrl \<Rightarrow> nat" where
  "pedestrianPhases s = count_list (wlog (pins s)) (PIN_PED_GREEN, HIGH)"

text \<open>
  The stages of one pass of \<^verbatim>\<open>loop()\<close>: the state when the first call of
  \<^verbatim>\<open>phasePedestrianIfRequested\<close> is reached (right after \<^verbatim>\<open>phaseNsYellow\<close>), the
  state when it returns, and the state when its second call is reached (right after
  \<^verbatim>\<open>phaseEwYellow\<close>).
\<close>

definition atFirstInsertion :: "buttons \<Rightarrow> ctrl \<Rightarrow> ctrl" where
  "atFirstInsertion inp s = phaseNsYellow inp (phaseNsGreen inp s)"

definition afterFirstInsertion :: "buttons \<Rightarrow> ctrl \<Rightarrow> ctrl" where
  "afterFirstInsertion inp s = phasePedestrianIfRequested inp (atFirstInsertion inp s)"

definition atSecondInsertion :: "buttons \<Rightarrow> ctrl \<Rightarrow> ctrl" where
  "atSecondInsertion inp s = phaseEwYellow inp (phaseEwGreen inp (afterFirstInsertion inp s))"

text \<open>What \<^verbatim>\<open>loop()\<close> does after \<^verbatim>\<open>phaseNsGreen\<close> has returned.\<close>

definition restOfLoop :: "buttons \<Rightarrow> ctrl \<Rightarrow> ctrl" where
  "restOfLoop inp s =
     phasePedestrianIfRequested inp (phaseEwYellow inp (phaseEwGreen inp
       (phasePedestrianIfRequested inp (phaseNsYellow inp s))))"

text \<open>Two button inputs deliver the same samples of all three buttons from sample \<open>r\<close> on.\<close>

definition agreeFrom :: "nat \<Rightarrow> buttons \<Rightarrow> buttons \<Rightarrow> bool" where
  "agreeFrom r inp1 inp2 =
     (\<forall>k\<ge>r.
        inp1 k PIN_BTN_NS_TRAFFIC = inp2 k PIN_BTN_NS_TRAFFIC \<and>
        inp1 k PIN_BTN_EW_TRAFFIC = inp2 k PIN_BTN_EW_TRAFFIC \<and>
        inp1 k PIN_BTN_PED_REQUEST = inp2 k PIN_BTN_PED_REQUEST)"

section \<open>Loops as iteration\<close>

lemmas pin_defs =
  PIN_NS_RED_def PIN_NS_YELLOW_def PIN_NS_GREEN_def
  PIN_EW_RED_def PIN_EW_YELLOW_def PIN_EW_GREEN_def
  PIN_PED_RED_def PIN_PED_GREEN_def
  PIN_BTN_NS_TRAFFIC_def PIN_BTN_EW_TRAFFIC_def PIN_BTN_PED_REQUEST_def


lemma forUpTo_funpow: "forUpTo i n body s = (body ^^ nat (n - i)) s"
proof (induction i n body s rule: forUpTo.induct)
  case (1 i n body s)
  show ?case
  proof (cases "i < n")
    case True
    then have "nat (n - i) = Suc (nat (n - (i + 1)))" by simp
    with True 1 show ?thesis
      by (subst forUpTo.simps) (simp add: funpow_swap1)
  next
    case False
    then show ?thesis by (subst forUpTo.simps) simp
  qed
qed

lemma forRemaining_funpow: "forRemaining r body s = (body ^^ nat r) s"
proof (induction r body s rule: forRemaining.induct)
  case (1 r body s)
  show ?case
  proof (cases "r > 0")
    case True
    then have "nat r = Suc (nat (r - 1))" by simp
    with True 1 show ?thesis
      by (subst forRemaining.simps) (simp add: funpow_swap1)
  next
    case False
    then show ?thesis by (subst forRemaining.simps) simp
  qed
qed

lemma waitOneSecondWithButtons_funpow:
  "waitOneSecondWithButtons inp = readButtons inp ^^ 50"
  by (rule ext) (simp add: waitOneSecondWithButtons_def forUpTo_funpow)

section \<open>Sampling the buttons\<close>

lemma lastSample_Suc: "lastSample inp p prev r (Suc n) = inp (r + n) p"
  by (induction n arbitrary: prev r) simp_all

lemma presses_cong:
  "(\<And>k. k < n \<Longrightarrow> inp1 (r + k) p = inp2 (r + k) p) \<Longrightarrow>
   presses inp1 p prev r n = presses inp2 p prev r n"
proof (induction n arbitrary: prev r)
  case 0
  show ?case by simp
next
  case (Suc n)
  have h0: "inp1 r p = inp2 r p" using Suc.prems [of 0] by simp
  have "presses inp1 p (inp1 r p) (Suc r) n = presses inp2 p (inp1 r p) (Suc r) n"
  proof (rule Suc.IH)
    fix k assume "k < n"
    then show "inp1 (Suc r + k) p = inp2 (Suc r + k) p"
      using Suc.prems [of "Suc k"] by simp
  qed
  with h0 show ?case by simp
qed

lemma presses_released:
  "(\<And>k. k < n \<Longrightarrow> inp (r + k) p = HIGH) \<Longrightarrow> presses inp p prev r n = 0"
proof (induction n arbitrary: prev r)
  case 0
  show ?case by simp
next
  case (Suc n)
  have h0: "inp r p = HIGH" using Suc.prems [of 0] by simp
  have "presses inp p (inp r p) (Suc r) n = 0"
  proof (rule Suc.IH)
    fix k assume "k < n"
    then show "inp (Suc r + k) p = HIGH"
      using Suc.prems [of "Suc k"] by simp
  qed
  with h0 show ?case by simp
qed

lemma presses_add:
  "presses inp p prev r (m + n) =
     presses inp p prev r m + presses inp p (lastSample inp p prev r m) (r + m) n"
  by (induction m arbitrary: prev r) simp_all

lemma presses_first:
  "inp r p = LOW \<Longrightarrow> prev = HIGH \<Longrightarrow> 0 < presses inp p prev r (Suc n)"
  by simp

lemma presses_later:
  assumes "k < n" "inp (r + k) p = HIGH" "inp (r + Suc k) p = LOW"
  shows "0 < presses inp p prev r (Suc n)"
proof -
  have "Suc n = Suc k + (n - k)" using assms(1) by simp
  then have "presses inp p prev r (Suc n) =
      presses inp p prev r (Suc k) +
      presses inp p (lastSample inp p prev r (Suc k)) (r + Suc k) (n - k)"
    by (simp only: presses_add)
  moreover have "lastSample inp p prev r (Suc k) = HIGH"
    using assms(2) by (simp only: lastSample_Suc)
  moreover obtain j where "n - k = Suc j" using assms(1) by (cases "n - k") simp_all
  ultimately show ?thesis using assms(3) by simp
qed

lemma presses_window:
  "presses inp p prev r (m + n) = presses inp p prev r m"
  if "\<And>k. k < n \<Longrightarrow> inp (r + m + k) p = HIGH"
proof -
  have "presses inp p (lastSample inp p prev r m) (r + m) n = 0"
    using that by (rule presses_released)
  then show ?thesis by (simp add: presses_add)
qed

lemma readButtons_step: "readButtons inp s = sampled inp 1 s"
  by (simp add: sampled_def readButtons_def Let_def digitalRead_def isNsRed_def isEwRed_def)

lemma sampled_0: "sampled inp 0 s = s"
  by (simp add: sampled_def)

lemma sampled_Suc: "sampled inp n (sampled inp 1 s) = sampled inp (Suc n) s"
  by (simp add: sampled_def isNsRed_def isEwRed_def)

lemma readButtons_funpow: "(readButtons inp ^^ n) s = sampled inp n s"
proof (induction n arbitrary: s)
  case 0
  show ?case by (simp add: sampled_0)
next
  case (Suc n)
  have "(readButtons inp ^^ Suc n) s = (readButtons inp ^^ n) (readButtons inp s)"
    by (simp add: funpow_swap1)
  also have "\<dots> = sampled inp n (sampled inp 1 s)"
    by (simp only: Suc.IH readButtons_step)
  also have "\<dots> = sampled inp (Suc n) s"
    by (rule sampled_Suc)
  finally show ?case .
qed

lemma sampled_add: "sampled inp m (sampled inp n s) = sampled inp (n + m) s"
proof -
  have "sampled inp (n + m) s = (readButtons inp ^^ (m + n)) s"
    by (simp add: readButtons_funpow add.commute)
  also have "\<dots> = (readButtons inp ^^ m) ((readButtons inp ^^ n) s)"
    by (simp add: funpow_add)
  finally show ?thesis by (simp add: readButtons_funpow)
qed

lemma sampled_pins_update:
  "sampled inp n (s\<lparr>pins := x\<rparr>) = (sampled inp n s)\<lparr>pins := x\<rparr>"
  by (simp add: sampled_def isNsRed_def isEwRed_def)

lemma sampled_fields [simp]:
  "reads (sampled inp n s) = reads s + n"
  "pins (sampled inp n s) = pins s"
  "currentPhase (sampled inp n s) = currentPhase s"
  "pedRequest (sampled inp n s) =
     (pedRequest s \<or> 0 < presses inp PIN_BTN_PED_REQUEST (lastPedBtnState s) (reads s) n)"
  "trafficCountNS (sampled inp n s) = trafficCountNS s +
     (if isNsRed s then int (presses inp PIN_BTN_NS_TRAFFIC (lastNsBtnState s) (reads s) n) else 0)"
  "trafficCountEW (sampled inp n s) = trafficCountEW s +
     (if isEwRed s then int (presses inp PIN_BTN_EW_TRAFFIC (lastEwBtnState s) (reads s) n) else 0)"
  "lastNsBtnState (sampled inp n s) = lastSample inp PIN_BTN_NS_TRAFFIC (lastNsBtnState s) (reads s) n"
  "lastEwBtnState (sampled inp n s) = lastSample inp PIN_BTN_EW_TRAFFIC (lastEwBtnState s) (reads s) n"
  "lastPedBtnState (sampled inp n s) = lastSample inp PIN_BTN_PED_REQUEST (lastPedBtnState s) (reads s) n"
  by (simp_all add: sampled_def)

section \<open>The phases in closed form\<close>

lemma dwell_funpow:
  "forRemaining secs (waitOneSecondWithButtons inp) s = sampled inp (50 * nat secs) s"
  by (simp add: forRemaining_funpow waitOneSecondWithButtons_funpow funpow_mult
      readButtons_funpow)

lemma phaseNsGreen_eq:
  "phaseNsGreen inp s =
     (sampled inp (50 * nat (computeNsGreenSeconds s))
        (s\<lparr>currentPhase := PHASE_NS_GREEN, pins := setNsGreenState (pins s)\<rparr>))
       \<lparr>trafficCountNS := 0\<rparr>"
  by (simp add: phaseNsGreen_def Let_def dwell_funpow computeNsGreenSeconds_def)

lemma phaseEwGreen_eq:
  "phaseEwGreen inp s =
     (sampled inp (50 * nat (computeEwGreenSeconds s))
        (s\<lparr>currentPhase := PHASE_EW_GREEN, pins := setEwGreenState (pins s)\<rparr>))
       \<lparr>trafficCountEW := 0\<rparr>"
  by (simp add: phaseEwGreen_def Let_def dwell_funpow computeEwGreenSeconds_def)

lemma yellow_body_funpow:
  "((\<lambda>s. waitOneSecondWithButtons inp (s\<lparr>pins := g (pins s)\<rparr>)) ^^ k) s =
     (sampled inp (50 * k) s)\<lparr>pins := (g ^^ k) (pins s)\<rparr>"
proof (induction k)
  case 0
  show ?case by (simp add: sampled_0)
next
  case (Suc k)
  then show ?case
    by (simp add: waitOneSecondWithButtons_funpow readButtons_funpow sampled_pins_update
        sampled_add add.commute)
qed

lemma phaseNsYellow_eq:
  "phaseNsYellow inp s =
     (sampled inp 150 (s\<lparr>currentPhase := PHASE_NS_YELLOW\<rparr>))
       \<lparr>pins := (setNsYellowState ^^ 3) (pins s)\<rparr>"
  by (simp add: phaseNsYellow_def Let_def forRemaining_funpow yellow_body_funpow
      YELLOW_TIME_SEC_def)

lemma phaseEwYellow_eq:
  "phaseEwYellow inp s =
     (sampled inp 150 (s\<lparr>currentPhase := PHASE_EW_YELLOW\<rparr>))
       \<lparr>pins := (setEwYellowState ^^ 3) (pins s)\<rparr>"
  by (simp add: phaseEwYellow_def Let_def forRemaining_funpow yellow_body_funpow
      YELLOW_TIME_SEC_def)

lemma phasePedestrianIfRequested_eq:
  "phasePedestrianIfRequested inp s =
     (if \<not> pedRequest s then s
      else (sampled inp 400 (s\<lparr>currentPhase := PHASE_PED_GREEN\<rparr>))
        \<lparr>pins := digitalWrite PIN_PED_GREEN LOW (digitalWrite PIN_PED_RED HIGH
            (setAllVehicleRed (setPedestrianGreenState (pins s)))),
         pedRequest := False\<rparr>)"
  by (simp add: phasePedestrianIfRequested_def Let_def dwell_funpow PED_TIME_SEC_def
      sampled_pins_update)

lemmas set_defs =
  setAllVehicleRed_def setNsGreenState_def setNsYellowState_def setEwGreenState_def
  setEwYellowState_def setPedestrianGreenState_def digitalWrite_def Let_def

lemmas show_defs =
  nsShowsRed_def ewShowsRed_def nsShowsGo_def ewShowsGo_def oneAxisAtMost_def
  pedestrianShowsGreen_def

lemma readButtons_pins: "pins (readButtons inp s) = pins s"
  by (simp add: readButtons_def Let_def)

section \<open>The signal heads after each output-setting operation\<close>

text \<open>
  C1. Whatever the pins showed before, after \<^verbatim>\<open>setAllVehicleRed\<close> both vehicle heads
  show red; after \<^verbatim>\<open>setNsGreenState\<close> and \<^verbatim>\<open>setNsYellowState\<close> the NS head
  shows its green (yellow) lamp alone and the EW head shows red; symmetrically for
  \<^verbatim>\<open>setEwGreenState\<close> and \<^verbatim>\<open>setEwYellowState\<close>; after
  \<^verbatim>\<open>setPedestrianGreenState\<close> both vehicle heads show red and the pedestrian head
  shows green. So after each of the six operations at most one axis shows green or
  yellow, and the other shows red. Sampling the buttons writes no pin, and each phase
  of \<^verbatim>\<open>main.cpp\<close> leaves the pins as its own operation set them (the yellow phases
  repeat theirs once per second; the pedestrian dwell runs on the pins of
  \<^verbatim>\<open>setPedestrianGreenState\<close>).
\<close>

theorem signal_heads_after_set:
  "nsShowsRed (level (setAllVehicleRed out)) \<and> ewShowsRed (level (setAllVehicleRed out)) \<and>
   oneAxisAtMost (level (setAllVehicleRed out)) \<and>
   level (setNsGreenState out) PIN_NS_GREEN \<and>
   nsShowsGo (level (setNsGreenState out)) \<and> ewShowsRed (level (setNsGreenState out)) \<and>
   oneAxisAtMost (level (setNsGreenState out)) \<and>
   level (setNsYellowState out) PIN_NS_YELLOW \<and>
   nsShowsGo (level (setNsYellowState out)) \<and> ewShowsRed (level (setNsYellowState out)) \<and>
   oneAxisAtMost (level (setNsYellowState out)) \<and>
   level (setEwGreenState out) PIN_EW_GREEN \<and>
   ewShowsGo (level (setEwGreenState out)) \<and> nsShowsRed (level (setEwGreenState out)) \<and>
   oneAxisAtMost (level (setEwGreenState out)) \<and>
   level (setEwYellowState out) PIN_EW_YELLOW \<and>
   ewShowsGo (level (setEwYellowState out)) \<and> nsShowsRed (level (setEwYellowState out)) \<and>
   oneAxisAtMost (level (setEwYellowState out)) \<and>
   nsShowsRed (level (setPedestrianGreenState out)) \<and>
   ewShowsRed (level (setPedestrianGreenState out)) \<and>
   pedestrianShowsGreen (level (setPedestrianGreenState out)) \<and>
   oneAxisAtMost (level (setPedestrianGreenState out)) \<and>
   pins (readButtons inp s) = pins s \<and>
   pins (phaseNsGreen inp s) = setNsGreenState (pins s) \<and>
   pins (phaseNsYellow inp s) =
     setNsYellowState (setNsYellowState (setNsYellowState (pins s))) \<and>
   pins (phaseEwGreen inp s) = setEwGreenState (pins s) \<and>
   pins (phaseEwYellow inp s) =
     setEwYellowState (setEwYellowState (setEwYellowState (pins s))) \<and>
   pins (forRemaining PED_TIME_SEC (waitOneSecondWithButtons inp)
     (s\<lparr>currentPhase := PHASE_PED_GREEN, pins := setPedestrianGreenState (pins s)\<rparr>)) =
     setPedestrianGreenState (pins s)"
  by (simp add: phaseNsGreen_eq phaseNsYellow_eq phaseEwGreen_eq phaseEwYellow_eq
      dwell_funpow eval_nat_numeral readButtons_pins)
    (simp add: set_defs show_defs pin_defs)

section \<open>The green time tables\<close>

text \<open>
  C3, as amended. In \<^verbatim>\<open>main.cpp\<close> the green time is 10 for a counter in [0,4], 20 in
  [5,9], 30 in [10,14] and 40 from 15 on. In \<^verbatim>\<open>main_withlcd.cpp\<close> it is 10 for a
  counter in [0,3], 20 in [4,7] and 30 from 8 on. All four functions are monotonically
  non-decreasing in the counter.
\<close>

theorem green_seconds_tables:
  "(0 \<le> trafficCountNS s \<and> trafficCountNS s \<le> 4 \<longrightarrow> computeNsGreenSeconds s = 10) \<and>
   (5 \<le> trafficCountNS s \<and> trafficCountNS s \<le> 9 \<longrightarrow> computeNsGreenSeconds s = 20) \<and>
   (10 \<le> trafficCountNS s \<and> trafficCountNS s \<le> 14 \<longrightarrow> computeNsGreenSeconds s = 30) \<and>
   (15 \<le> trafficCountNS s \<longrightarrow> computeNsGreenSeconds s = 40) \<and>
   (trafficCountNS s \<le> trafficCountNS s' \<longrightarrow>
      computeNsGreenSeconds s \<le> computeNsGreenSeconds s') \<and>
   (0 \<le> trafficCountEW s \<and> trafficCountEW s \<le> 4 \<longrightarrow> computeEwGreenSeconds s = 10) \<and>
   (5 \<le> trafficCountEW s \<and> trafficCountEW s \<le> 9 \<longrightarrow> computeEwGreenSeconds s = 20) \<and>
   (10 \<le> trafficCountEW s \<and> trafficCountEW s \<le> 14 \<longrightarrow> computeEwGreenSeconds s = 30) \<and>
   (15 \<le> trafficCountEW s \<longrightarrow> computeEwGreenSeconds s = 40) \<and>
   (trafficCountEW s \<le> trafficCountEW s' \<longrightarrow>
      computeEwGreenSeconds s \<le> computeEwGreenSeconds s') \<and>
   (0 \<le> trafficCountNS v \<and> trafficCountNS v \<le> 3 \<longrightarrow> computeNsGreenSeconds_lcd v = 10) \<and>
   (4 \<le> trafficCountNS v \<and> trafficCountNS v \<le> 7 \<longrightarrow> computeNsGreenSeconds_lcd v = 20) \<and>
   (8 \<le> trafficCountNS v \<longrightarrow> computeNsGreenSeconds_lcd v = 30) \<and>
   (trafficCountNS v \<le> trafficCountNS v' \<longrightarrow>
      computeNsGreenSeconds_lcd v \<le> computeNsGreenSeconds_lcd v') \<and>
   (0 \<le> trafficCountEW v \<and> trafficCountEW v \<le> 3 \<longrightarrow> computeEwGreenSeconds_lcd v = 10) \<and>
   (4 \<le> trafficCountEW v \<and> trafficCountEW v \<le> 7 \<longrightarrow> computeEwGreenSeconds_lcd v = 20) \<and>
   (8 \<le> trafficCountEW v \<longrightarrow> computeEwGreenSeconds_lcd v = 30) \<and>
   (trafficCountEW v \<le> trafficCountEW v' \<longrightarrow>
      computeEwGreenSeconds_lcd v \<le> computeEwGreenSeconds_lcd v')"
  by (simp add: computeNsGreenSeconds_def computeEwGreenSeconds_def
        computeNsGreenSeconds_lcd_def computeEwGreenSeconds_lcd_def BASE_GREEN_SEC_def)

text \<open>
  C3 as stated fails on \<^verbatim>\<open>main_withlcd.cpp\<close>: a counter of 4 lies in [0,4], and
  \<^verbatim>\<open>computeNsGreenSeconds\<close> of that file returns 20, not 10.
\<close>

theorem green_seconds_lcd_counterexample:
  "0 \<le> trafficCountNS (initial_lcd\<lparr>trafficCountNS := 4\<rparr>) \<and>
   trafficCountNS (initial_lcd\<lparr>trafficCountNS := 4\<rparr>) \<le> 4 \<and>
   computeNsGreenSeconds_lcd (initial_lcd\<lparr>trafficCountNS := 4\<rparr>) = 20 \<and>
   computeNsGreenSeconds_lcd (initial_lcd\<lparr>trafficCountNS := 4\<rparr>) \<noteq> 10"
  by (simp add: computeNsGreenSeconds_lcd_def)

theorem green_seconds_tables_witness:
  "computeNsGreenSeconds (initial\<lparr>trafficCountNS := 2\<rparr>) = 10 \<and>
   computeNsGreenSeconds (initial\<lparr>trafficCountNS := 6\<rparr>) = 20 \<and>
   computeNsGreenSeconds (initial\<lparr>trafficCountNS := 12\<rparr>) = 30 \<and>
   computeNsGreenSeconds (initial\<lparr>trafficCountNS := 15\<rparr>) = 40 \<and>
   computeNsGreenSeconds (initial\<lparr>trafficCountNS := 6\<rparr>)
     \<le> computeNsGreenSeconds (initial\<lparr>trafficCountNS := 12\<rparr>) \<and>
   computeEwGreenSeconds (initial\<lparr>trafficCountEW := 4\<rparr>) = 10 \<and>
   computeEwGreenSeconds (initial\<lparr>trafficCountEW := 5\<rparr>) = 20 \<and>
   computeEwGreenSeconds (initial\<lparr>trafficCountEW := 14\<rparr>) = 30 \<and>
   computeEwGreenSeconds (initial\<lparr>trafficCountEW := 99\<rparr>) = 40 \<and>
   computeEwGreenSeconds (initial\<lparr>trafficCountEW := 4\<rparr>)
     \<le> computeEwGreenSeconds (initial\<lparr>trafficCountEW := 5\<rparr>) \<and>
   computeNsGreenSeconds_lcd (initial_lcd\<lparr>trafficCountNS := 3\<rparr>) = 10 \<and>
   computeNsGreenSeconds_lcd (initial_lcd\<lparr>trafficCountNS := 4\<rparr>) = 20 \<and>
   computeNsGreenSeconds_lcd (initial_lcd\<lparr>trafficCountNS := 8\<rparr>) = 30 \<and>
   computeNsGreenSeconds_lcd (initial_lcd\<lparr>trafficCountNS := 3\<rparr>)
     \<le> computeNsGreenSeconds_lcd (initial_lcd\<lparr>trafficCountNS := 4\<rparr>) \<and>
   computeEwGreenSeconds_lcd (initial_lcd\<lparr>trafficCountEW := 0\<rparr>) = 10 \<and>
   computeEwGreenSeconds_lcd (initial_lcd\<lparr>trafficCountEW := 7\<rparr>) = 20 \<and>
   computeEwGreenSeconds_lcd (initial_lcd\<lparr>trafficCountEW := 10\<rparr>) = 30 \<and>
   computeEwGreenSeconds_lcd (initial_lcd\<lparr>trafficCountEW := 7\<rparr>)
     \<le> computeEwGreenSeconds_lcd (initial_lcd\<lparr>trafficCountEW := 10\<rparr>)"
  using
    green_seconds_tables [of "initial\<lparr>trafficCountNS := 2\<rparr>" "initial\<lparr>trafficCountNS := 6\<rparr>"
      "initial_lcd\<lparr>trafficCountNS := 3\<rparr>" "initial_lcd\<lparr>trafficCountNS := 4\<rparr>"]
    green_seconds_tables [of "initial\<lparr>trafficCountNS := 6\<rparr>" "initial\<lparr>trafficCountNS := 12\<rparr>"
      "initial_lcd\<lparr>trafficCountNS := 4\<rparr>" "initial_lcd\<lparr>trafficCountNS := 8\<rparr>"]
    green_seconds_tables [of "initial\<lparr>trafficCountNS := 12\<rparr>" "initial\<lparr>trafficCountNS := 15\<rparr>"
      "initial_lcd\<lparr>trafficCountNS := 8\<rparr>" "initial_lcd\<lparr>trafficCountNS := 8\<rparr>"]
    green_seconds_tables [of "initial\<lparr>trafficCountNS := 15\<rparr>" "initial\<lparr>trafficCountNS := 15\<rparr>"
      "initial_lcd\<lparr>trafficCountEW := 0\<rparr>" "initial_lcd\<lparr>trafficCountEW := 7\<rparr>"]
    green_seconds_tables [of "initial\<lparr>trafficCountEW := 4\<rparr>" "initial\<lparr>trafficCountEW := 5\<rparr>"
      "initial_lcd\<lparr>trafficCountEW := 7\<rparr>" "initial_lcd\<lparr>trafficCountEW := 10\<rparr>"]
    green_seconds_tables [of "initial\<lparr>trafficCountEW := 5\<rparr>" "initial\<lparr>trafficCountEW := 14\<rparr>"
      "initial_lcd\<lparr>trafficCountEW := 10\<rparr>" "initial_lcd\<lparr>trafficCountEW := 10\<rparr>"]
    green_seconds_tables [of "initial\<lparr>trafficCountEW := 14\<rparr>" "initial\<lparr>trafficCountEW := 99\<rparr>"
      "initial_lcd\<lparr>trafficCountEW := 10\<rparr>" "initial_lcd\<lparr>trafficCountEW := 10\<rparr>"]
    green_seconds_tables [of "initial\<lparr>trafficCountEW := 99\<rparr>" "initial\<lparr>trafficCountEW := 99\<rparr>"
      "initial_lcd\<lparr>trafficCountEW := 10\<rparr>" "initial_lcd\<lparr>trafficCountEW := 10\<rparr>"]
  by (simp add: initial_def initial_lcd_def)

section \<open>Traffic presses\<close>

text \<open>
  C4. In one call of \<^verbatim>\<open>readButtons\<close> of \<^verbatim>\<open>main.cpp\<close>, a press event on an axis
  button (sample \<^verbatim>\<open>LOW\<close>, stored previous level \<^verbatim>\<open>HIGH\<close>) adds exactly one to that
  axis's counter when the axis is red-equivalent, that is when the current phase is
  neither its green nor its yellow, and leaves the counter unchanged otherwise. A counter
  changes only by a press event on its own button and the latch only by a press event
  on the pedestrian button, so a traffic press touches neither the other counter nor the
  latch; the phase and the pins are never touched.
\<close>

theorem traffic_press_counted_when_red:
  "(inp (reads s) PIN_BTN_NS_TRAFFIC = LOW \<and> lastNsBtnState s = HIGH \<and> isNsRed s \<longrightarrow>
      trafficCountNS (readButtons inp s) = trafficCountNS s + 1) \<and>
   (inp (reads s) PIN_BTN_NS_TRAFFIC = LOW \<and> lastNsBtnState s = HIGH \<and> \<not> isNsRed s \<longrightarrow>
      trafficCountNS (readButtons inp s) = trafficCountNS s) \<and>
   (inp (reads s) PIN_BTN_EW_TRAFFIC = LOW \<and> lastEwBtnState s = HIGH \<and> isEwRed s \<longrightarrow>
      trafficCountEW (readButtons inp s) = trafficCountEW s + 1) \<and>
   (inp (reads s) PIN_BTN_EW_TRAFFIC = LOW \<and> lastEwBtnState s = HIGH \<and> \<not> isEwRed s \<longrightarrow>
      trafficCountEW (readButtons inp s) = trafficCountEW s) \<and>
   (\<not> (inp (reads s) PIN_BTN_NS_TRAFFIC = LOW \<and> lastNsBtnState s = HIGH) \<longrightarrow>
      trafficCountNS (readButtons inp s) = trafficCountNS s) \<and>
   (\<not> (inp (reads s) PIN_BTN_EW_TRAFFIC = LOW \<and> lastEwBtnState s = HIGH) \<longrightarrow>
      trafficCountEW (readButtons inp s) = trafficCountEW s) \<and>
   (\<not> (inp (reads s) PIN_BTN_PED_REQUEST = LOW \<and> lastPedBtnState s = HIGH) \<longrightarrow>
      pedRequest (readButtons inp s) = pedRequest s) \<and>
   isNsRed s = (currentPhase s \<noteq> PHASE_NS_GREEN \<and> currentPhase s \<noteq> PHASE_NS_YELLOW) \<and>
   isEwRed s = (currentPhase s \<noteq> PHASE_EW_GREEN \<and> currentPhase s \<noteq> PHASE_EW_YELLOW) \<and>
   currentPhase (readButtons inp s) = currentPhase s \<and>
   pins (readButtons inp s) = pins s"
  by (cases "currentPhase s") (simp_all add: readButtons_step isNsRed_def isEwRed_def)

theorem traffic_press_counted_when_red_witness:
  "trafficCountNS (readButtons (heldAt [(PIN_BTN_NS_TRAFFIC, 0), (PIN_BTN_EW_TRAFFIC, 0)])
      (initial\<lparr>currentPhase := PHASE_EW_GREEN\<rparr>)) = 1 \<and>
   trafficCountEW (readButtons (heldAt [(PIN_BTN_NS_TRAFFIC, 0), (PIN_BTN_EW_TRAFFIC, 0)])
      (initial\<lparr>currentPhase := PHASE_EW_GREEN\<rparr>)) = 0 \<and>
   pedRequest (readButtons (heldAt [(PIN_BTN_NS_TRAFFIC, 0), (PIN_BTN_EW_TRAFFIC, 0)])
      (initial\<lparr>currentPhase := PHASE_EW_GREEN\<rparr>)) = False \<and>
   trafficCountNS (readButtons (heldAt [(PIN_BTN_NS_TRAFFIC, 0), (PIN_BTN_EW_TRAFFIC, 0)])
      initial) = 0 \<and>
   trafficCountEW (readButtons (heldAt [(PIN_BTN_NS_TRAFFIC, 0), (PIN_BTN_EW_TRAFFIC, 0)])
      initial) = 1 \<and>
   trafficCountNS (readButtons (heldAt [(PIN_BTN_PED_REQUEST, 0)])
      (initial\<lparr>currentPhase := PHASE_PED_GREEN, trafficCountNS := 7\<rparr>)) = 7 \<and>
   trafficCountEW (readButtons (heldAt [(PIN_BTN_PED_REQUEST, 0)])
      (initial\<lparr>currentPhase := PHASE_PED_GREEN, trafficCountEW := 3\<rparr>)) = 3"
  using
    traffic_press_counted_when_red
      [of "heldAt [(PIN_BTN_NS_TRAFFIC, 0), (PIN_BTN_EW_TRAFFIC, 0)]"
          "initial\<lparr>currentPhase := PHASE_EW_GREEN\<rparr>"]
    traffic_press_counted_when_red
      [of "heldAt [(PIN_BTN_NS_TRAFFIC, 0), (PIN_BTN_EW_TRAFFIC, 0)]" initial]
    traffic_press_counted_when_red
      [of "heldAt [(PIN_BTN_PED_REQUEST, 0)]"
          "initial\<lparr>currentPhase := PHASE_PED_GREEN, trafficCountNS := 7\<rparr>"]
    traffic_press_counted_when_red
      [of "heldAt [(PIN_BTN_PED_REQUEST, 0)]"
          "initial\<lparr>currentPhase := PHASE_PED_GREEN, trafficCountEW := 3\<rparr>"]
  by (simp add: heldAt_def initial_def isNsRed_def isEwRed_def pin_defs)

section \<open>Counters across a green phase\<close>

text \<open>
  C6. When \<^verbatim>\<open>phaseNsGreen\<close> returns, the NS counter is zero and the EW counter is its
  value at entry plus the number of EW press events sampled during the dwell: the
  phase does not reset or otherwise change it. Symmetrically for \<^verbatim>\<open>phaseEwGreen\<close>.
  Both functions are total, so they do return.
\<close>

theorem green_phase_counters:
  "trafficCountNS (phaseNsGreen inp s) = 0 \<and>
   trafficCountEW (phaseNsGreen inp s) =
     trafficCountEW s +
     int (presses inp PIN_BTN_EW_TRAFFIC (lastEwBtnState s) (reads s)
            (50 * nat (computeNsGreenSeconds s))) \<and>
   trafficCountEW (phaseEwGreen inp s) = 0 \<and>
   trafficCountNS (phaseEwGreen inp s) =
     trafficCountNS s +
     int (presses inp PIN_BTN_NS_TRAFFIC (lastNsBtnState s) (reads s)
            (50 * nat (computeEwGreenSeconds s)))"
  by (simp add: phaseNsGreen_eq phaseEwGreen_eq isNsRed_def isEwRed_def)

theorem green_phase_counters_witness:
  "trafficCountNS
     (phaseNsGreen (heldAt [(PIN_BTN_EW_TRAFFIC, 0), (PIN_BTN_EW_TRAFFIC, 2), (PIN_BTN_NS_TRAFFIC, 1)])
        (initial\<lparr>trafficCountNS := 6\<rparr>)) = 0 \<and>
   trafficCountEW
     (phaseNsGreen (heldAt [(PIN_BTN_EW_TRAFFIC, 0), (PIN_BTN_EW_TRAFFIC, 2), (PIN_BTN_NS_TRAFFIC, 1)])
        (initial\<lparr>trafficCountNS := 6\<rparr>)) = 2"
proof -
  let ?inp = "heldAt [(PIN_BTN_EW_TRAFFIC, 0), (PIN_BTN_EW_TRAFFIC, 2), (PIN_BTN_NS_TRAFFIC, 1)]"
  have "presses ?inp PIN_BTN_EW_TRAFFIC HIGH 0 (3 + 997) = presses ?inp PIN_BTN_EW_TRAFFIC HIGH 0 3"
    by (rule presses_window) (simp add: heldAt_def)
  also have "\<dots> = 2"
    by (simp add: eval_nat_numeral heldAt_def pin_defs)
  finally have "presses ?inp PIN_BTN_EW_TRAFFIC HIGH 0 1000 = 2" by simp
  then show ?thesis
    using green_phase_counters [of ?inp "initial\<lparr>trafficCountNS := 6\<rparr>"]
    by (simp add: initial_def computeNsGreenSeconds_def BASE_GREEN_SEC_def)
qed

section \<open>Traffic presses during the pedestrian phase\<close>

text \<open>
  C10. When the current phase is the pedestrian phase, \<^verbatim>\<open>isNsRed\<close> and \<^verbatim>\<open>isEwRed\<close>
  both hold, and a press event on either axis button adds one to that axis's counter.
  Over the whole pedestrian dwell (50 samples for each of the 8 seconds) each counter
  grows by the number of press events of its button.
\<close>

theorem pedestrian_phase_counts_both_axes:
  "(currentPhase s = PHASE_PED_GREEN \<longrightarrow>
      isNsRed s \<and> isEwRed s \<and>
      (inp (reads s) PIN_BTN_NS_TRAFFIC = LOW \<and> lastNsBtnState s = HIGH \<longrightarrow>
         trafficCountNS (readButtons inp s) = trafficCountNS s + 1) \<and>
      (inp (reads s) PIN_BTN_EW_TRAFFIC = LOW \<and> lastEwBtnState s = HIGH \<longrightarrow>
         trafficCountEW (readButtons inp s) = trafficCountEW s + 1)) \<and>
   (pedRequest s \<longrightarrow>
      trafficCountNS (phasePedestrianIfRequested inp s) =
        trafficCountNS s +
        int (presses inp PIN_BTN_NS_TRAFFIC (lastNsBtnState s) (reads s) (50 * nat PED_TIME_SEC)) \<and>
      trafficCountEW (phasePedestrianIfRequested inp s) =
        trafficCountEW s +
        int (presses inp PIN_BTN_EW_TRAFFIC (lastEwBtnState s) (reads s) (50 * nat PED_TIME_SEC)))"
  by (simp add: readButtons_step phasePedestrianIfRequested_eq isNsRed_def isEwRed_def
      PED_TIME_SEC_def)


theorem pedestrian_phase_counts_both_axes_witness:
  "trafficCountNS
     (readButtons (heldAt [(PIN_BTN_NS_TRAFFIC, 0), (PIN_BTN_EW_TRAFFIC, 0), (PIN_BTN_EW_TRAFFIC, 2)])
        (initial\<lparr>currentPhase := PHASE_PED_GREEN\<rparr>)) = 1 \<and>
   trafficCountEW
     (readButtons (heldAt [(PIN_BTN_NS_TRAFFIC, 0), (PIN_BTN_EW_TRAFFIC, 0), (PIN_BTN_EW_TRAFFIC, 2)])
        (initial\<lparr>currentPhase := PHASE_PED_GREEN\<rparr>)) = 1 \<and>
   trafficCountNS
     (phasePedestrianIfRequested
        (heldAt [(PIN_BTN_NS_TRAFFIC, 0), (PIN_BTN_EW_TRAFFIC, 0), (PIN_BTN_EW_TRAFFIC, 2)])
        (initial\<lparr>pedRequest := True\<rparr>)) = 1 \<and>
   trafficCountEW
     (phasePedestrianIfRequested
        (heldAt [(PIN_BTN_NS_TRAFFIC, 0), (PIN_BTN_EW_TRAFFIC, 0), (PIN_BTN_EW_TRAFFIC, 2)])
        (initial\<lparr>pedRequest := True\<rparr>)) = 2"
proof -
  let ?inp = "heldAt [(PIN_BTN_NS_TRAFFIC, 0), (PIN_BTN_EW_TRAFFIC, 0), (PIN_BTN_EW_TRAFFIC, 2)]"
  have "presses ?inp PIN_BTN_EW_TRAFFIC HIGH 0 (3 + 397) = presses ?inp PIN_BTN_EW_TRAFFIC HIGH 0 3"
    by (rule presses_window) (simp add: heldAt_def)
  also have "\<dots> = 2"
    by (simp add: eval_nat_numeral heldAt_def pin_defs)
  finally have ew: "presses ?inp PIN_BTN_EW_TRAFFIC HIGH 0 400 = 2" by simp
  have "presses ?inp PIN_BTN_NS_TRAFFIC HIGH 0 (3 + 397) = presses ?inp PIN_BTN_NS_TRAFFIC HIGH 0 3"
    by (rule presses_window) (simp add: heldAt_def)
  also have "\<dots> = 1"
    by (simp add: eval_nat_numeral heldAt_def pin_defs)
  finally have ns: "presses ?inp PIN_BTN_NS_TRAFFIC HIGH 0 400 = 1" by simp
  show ?thesis
    using ns ew
      pedestrian_phase_counts_both_axes [of "initial\<lparr>currentPhase := PHASE_PED_GREEN\<rparr>" ?inp]
      pedestrian_phase_counts_both_axes [of "initial\<lparr>pedRequest := True\<rparr>" ?inp]
    by (simp add: initial_def heldAt_def pin_defs PED_TIME_SEC_def)
qed

section \<open>Sampling the buttons in main_withlcd.cpp\<close>

lemma capped_0: "capped c 0 = c"
  by (simp add: capped_def)

lemma capped_add: "capped (capped c j) k = capped c (j + k)"
  by (simp add: capped_def MAX_TRAFFIC_COUNT_def min_def)

lemma readButtons_lcd_step: "readButtons_lcd inp s = sampled_lcd inp 1 s"
  by (simp add: sampled_lcd_def readButtons_lcd_def Let_def digitalRead_def capped_def
      MAX_TRAFFIC_COUNT_def)

lemma sampled_lcd_0: "sampled_lcd inp 0 s = s"
  by (simp add: sampled_lcd_def capped_0)

lemma sampled_lcd_Suc: "sampled_lcd inp n (sampled_lcd inp 1 s) = sampled_lcd inp (Suc n) s"
  by (simp add: sampled_lcd_def capped_add)

lemma readButtons_lcd_funpow: "(readButtons_lcd inp ^^ n) s = sampled_lcd inp n s"
proof (induction n arbitrary: s)
  case 0
  show ?case by (simp add: sampled_lcd_0)
next
  case (Suc n)
  have "(readButtons_lcd inp ^^ Suc n) s = (readButtons_lcd inp ^^ n) (readButtons_lcd inp s)"
    by (simp add: funpow_swap1)
  also have "\<dots> = sampled_lcd inp n (sampled_lcd inp 1 s)"
    by (simp only: Suc.IH readButtons_lcd_step)
  also have "\<dots> = sampled_lcd inp (Suc n) s"
    by (rule sampled_lcd_Suc)
  finally show ?case .
qed

lemma sampled_lcd_fields [simp]:
  "reads (sampled_lcd inp n s) = reads s + n"
  "pins (sampled_lcd inp n s) = pins s"
  "pedRequest (sampled_lcd inp n s) =
     (pedRequest s \<or> 0 < presses inp PIN_BTN_PED_REQUEST (lastPedBtnState s) (reads s) n)"
  "trafficCountNS (sampled_lcd inp n s) =
     capped (trafficCountNS s) (presses inp PIN_BTN_NS_TRAFFIC (lastNsBtnState s) (reads s) n)"
  "trafficCountEW (sampled_lcd inp n s) =
     capped (trafficCountEW s) (presses inp PIN_BTN_EW_TRAFFIC (lastEwBtnState s) (reads s) n)"
  "lastNsBtnState (sampled_lcd inp n s) = lastSample inp PIN_BTN_NS_TRAFFIC (lastNsBtnState s) (reads s) n"
  "lastEwBtnState (sampled_lcd inp n s) = lastSample inp PIN_BTN_EW_TRAFFIC (lastEwBtnState s) (reads s) n"
  "lastPedBtnState (sampled_lcd inp n s) = lastSample inp PIN_BTN_PED_REQUEST (lastPedBtnState s) (reads s) n"
  by (simp_all add: sampled_lcd_def)

lemma sampled_lcd_pins_update:
  "sampled_lcd inp n (s\<lparr>pins := x\<rparr>) = (sampled_lcd inp n s)\<lparr>pins := x\<rparr>"
  by (simp add: sampled_lcd_def)

lemma phasePedestrianIfRequested_lcd_eq:
  "phasePedestrianIfRequested_lcd inp s =
     (if \<not> pedRequest s then s
      else (sampled_lcd inp 8 s)
        \<lparr>pins := digitalWrite PIN_PED_GREEN LOW (digitalWrite PIN_PED_RED HIGH
            (setAllVehicleRed (setPedestrianGreenState (pins s)))),
         pedRequest := False\<rparr>)"
  by (simp add: phasePedestrianIfRequested_lcd_def Let_def forUpTo_funpow PED_TIME_SEC_def
      readButtons_lcd_funpow sampled_lcd_pins_update)

section \<open>One press event per press\<close>

text \<open>
  C5, for \<^verbatim>\<open>readButtons\<close> of both sketches. Every call stores the sampled level of
  each button as its previous level, whether or not an event fired. Over any \<open>n\<close> calls
  the events that fired are exactly the released-to-pressed transitions of the sampled
  levels (\<open>presses\<close>): a counter that counts grows by their number (up to the bound in
  \<^verbatim>\<open>main_withlcd.cpp\<close>), and the latch is set when there is at least one. On two
  consecutive calls: when the first sample was pressed (button held, or released
  since) or the second sample is released, the second call fires no event; when the
  first was released and the second is pressed, it fires one.
\<close>

theorem press_event_once_per_press:
  "lastNsBtnState (readButtons inp s) = inp (reads s) PIN_BTN_NS_TRAFFIC \<and>
   lastEwBtnState (readButtons inp s) = inp (reads s) PIN_BTN_EW_TRAFFIC \<and>
   lastPedBtnState (readButtons inp s) = inp (reads s) PIN_BTN_PED_REQUEST \<and>
   lastNsBtnState (readButtons_lcd inp v) = inp (reads v) PIN_BTN_NS_TRAFFIC \<and>
   lastEwBtnState (readButtons_lcd inp v) = inp (reads v) PIN_BTN_EW_TRAFFIC \<and>
   lastPedBtnState (readButtons_lcd inp v) = inp (reads v) PIN_BTN_PED_REQUEST \<and>
   trafficCountNS ((readButtons inp ^^ n) s) =
     trafficCountNS s +
     (if isNsRed s
      then int (presses inp PIN_BTN_NS_TRAFFIC (lastNsBtnState s) (reads s) n) else 0) \<and>
   trafficCountEW ((readButtons inp ^^ n) s) =
     trafficCountEW s +
     (if isEwRed s
      then int (presses inp PIN_BTN_EW_TRAFFIC (lastEwBtnState s) (reads s) n) else 0) \<and>
   pedRequest ((readButtons inp ^^ n) s) =
     (pedRequest s \<or> 0 < presses inp PIN_BTN_PED_REQUEST (lastPedBtnState s) (reads s) n) \<and>
   trafficCountNS ((readButtons_lcd inp ^^ n) v) =
     capped (trafficCountNS v) (presses inp PIN_BTN_NS_TRAFFIC (lastNsBtnState v) (reads v) n) \<and>
   trafficCountEW ((readButtons_lcd inp ^^ n) v) =
     capped (trafficCountEW v) (presses inp PIN_BTN_EW_TRAFFIC (lastEwBtnState v) (reads v) n) \<and>
   pedRequest ((readButtons_lcd inp ^^ n) v) =
     (pedRequest v \<or> 0 < presses inp PIN_BTN_PED_REQUEST (lastPedBtnState v) (reads v) n) \<and>
   (inp (reads s) PIN_BTN_NS_TRAFFIC = LOW \<or> inp (Suc (reads s)) PIN_BTN_NS_TRAFFIC = HIGH \<longrightarrow>
      trafficCountNS (readButtons inp (readButtons inp s)) =
        trafficCountNS (readButtons inp s)) \<and>
   (inp (reads s) PIN_BTN_NS_TRAFFIC = HIGH \<and> inp (Suc (reads s)) PIN_BTN_NS_TRAFFIC = LOW \<and>
    isNsRed s \<longrightarrow>
      trafficCountNS (readButtons inp (readButtons inp s)) =
        trafficCountNS (readButtons inp s) + 1) \<and>
   (inp (reads s) PIN_BTN_EW_TRAFFIC = LOW \<or> inp (Suc (reads s)) PIN_BTN_EW_TRAFFIC = HIGH \<longrightarrow>
      trafficCountEW (readButtons inp (readButtons inp s)) =
        trafficCountEW (readButtons inp s)) \<and>
   (inp (reads s) PIN_BTN_EW_TRAFFIC = HIGH \<and> inp (Suc (reads s)) PIN_BTN_EW_TRAFFIC = LOW \<and>
    isEwRed s \<longrightarrow>
      trafficCountEW (readButtons inp (readButtons inp s)) =
        trafficCountEW (readButtons inp s) + 1) \<and>
   (inp (reads s) PIN_BTN_PED_REQUEST = LOW \<or> inp (Suc (reads s)) PIN_BTN_PED_REQUEST = HIGH \<longrightarrow>
      pedRequest (readButtons inp (readButtons inp s)) = pedRequest (readButtons inp s)) \<and>
   (inp (reads s) PIN_BTN_PED_REQUEST = HIGH \<and> inp (Suc (reads s)) PIN_BTN_PED_REQUEST = LOW \<longrightarrow>
      pedRequest (readButtons inp (readButtons inp s))) \<and>
   (inp (reads v) PIN_BTN_NS_TRAFFIC = LOW \<or> inp (Suc (reads v)) PIN_BTN_NS_TRAFFIC = HIGH \<longrightarrow>
      trafficCountNS (readButtons_lcd inp (readButtons_lcd inp v)) =
        trafficCountNS (readButtons_lcd inp v)) \<and>
   (inp (reads v) PIN_BTN_NS_TRAFFIC = HIGH \<and> inp (Suc (reads v)) PIN_BTN_NS_TRAFFIC = LOW \<and>
    trafficCountNS (readButtons_lcd inp v) < MAX_TRAFFIC_COUNT \<longrightarrow>
      trafficCountNS (readButtons_lcd inp (readButtons_lcd inp v)) =
        trafficCountNS (readButtons_lcd inp v) + 1) \<and>
   (inp (reads v) PIN_BTN_EW_TRAFFIC = LOW \<or> inp (Suc (reads v)) PIN_BTN_EW_TRAFFIC = HIGH \<longrightarrow>
      trafficCountEW (readButtons_lcd inp (readButtons_lcd inp v)) =
        trafficCountEW (readButtons_lcd inp v)) \<and>
   (inp (reads v) PIN_BTN_EW_TRAFFIC = HIGH \<and> inp (Suc (reads v)) PIN_BTN_EW_TRAFFIC = LOW \<and>
    trafficCountEW (readButtons_lcd inp v) < MAX_TRAFFIC_COUNT \<longrightarrow>
      trafficCountEW (readButtons_lcd inp (readButtons_lcd inp v)) =
        trafficCountEW (readButtons_lcd inp v) + 1) \<and>
   (inp (reads v) PIN_BTN_PED_REQUEST = LOW \<or> inp (Suc (reads v)) PIN_BTN_PED_REQUEST = HIGH \<longrightarrow>
      pedRequest (readButtons_lcd inp (readButtons_lcd inp v)) =
        pedRequest (readButtons_lcd inp v)) \<and>
   (inp (reads v) PIN_BTN_PED_REQUEST = HIGH \<and> inp (Suc (reads v)) PIN_BTN_PED_REQUEST = LOW \<longrightarrow>
      pedRequest (readButtons_lcd inp (readButtons_lcd inp v)))"
proof -
  have a: "lastNsBtnState (readButtons inp s) = inp (reads s) PIN_BTN_NS_TRAFFIC \<and>
   lastEwBtnState (readButtons inp s) = inp (reads s) PIN_BTN_EW_TRAFFIC \<and>
   lastPedBtnState (readButtons inp s) = inp (reads s) PIN_BTN_PED_REQUEST \<and>
   lastNsBtnState (readButtons_lcd inp v) = inp (reads v) PIN_BTN_NS_TRAFFIC \<and>
   lastEwBtnState (readButtons_lcd inp v) = inp (reads v) PIN_BTN_EW_TRAFFIC \<and>
   lastPedBtnState (readButtons_lcd inp v) = inp (reads v) PIN_BTN_PED_REQUEST"
    by (simp add: readButtons_step readButtons_lcd_step)
  have b: "trafficCountNS ((readButtons inp ^^ n) s) =
     trafficCountNS s +
     (if isNsRed s
      then int (presses inp PIN_BTN_NS_TRAFFIC (lastNsBtnState s) (reads s) n) else 0) \<and>
   trafficCountEW ((readButtons inp ^^ n) s) =
     trafficCountEW s +
     (if isEwRed s
      then int (presses inp PIN_BTN_EW_TRAFFIC (lastEwBtnState s) (reads s) n) else 0) \<and>
   pedRequest ((readButtons inp ^^ n) s) =
     (pedRequest s \<or> 0 < presses inp PIN_BTN_PED_REQUEST (lastPedBtnState s) (reads s) n) \<and>
   trafficCountNS ((readButtons_lcd inp ^^ n) v) =
     capped (trafficCountNS v) (presses inp PIN_BTN_NS_TRAFFIC (lastNsBtnState v) (reads v) n) \<and>
   trafficCountEW ((readButtons_lcd inp ^^ n) v) =
     capped (trafficCountEW v) (presses inp PIN_BTN_EW_TRAFFIC (lastEwBtnState v) (reads v) n) \<and>
   pedRequest ((readButtons_lcd inp ^^ n) v) =
     (pedRequest v \<or> 0 < presses inp PIN_BTN_PED_REQUEST (lastPedBtnState v) (reads v) n)"
    by (simp add: readButtons_funpow readButtons_lcd_funpow)
  have c: "(inp (reads s) PIN_BTN_NS_TRAFFIC = LOW \<or> inp (Suc (reads s)) PIN_BTN_NS_TRAFFIC = HIGH \<longrightarrow>
      trafficCountNS (readButtons inp (readButtons inp s)) =
        trafficCountNS (readButtons inp s)) \<and>
   (inp (reads s) PIN_BTN_NS_TRAFFIC = HIGH \<and> inp (Suc (reads s)) PIN_BTN_NS_TRAFFIC = LOW \<and>
    isNsRed s \<longrightarrow>
      trafficCountNS (readButtons inp (readButtons inp s)) =
        trafficCountNS (readButtons inp s) + 1) \<and>
   (inp (reads s) PIN_BTN_EW_TRAFFIC = LOW \<or> inp (Suc (reads s)) PIN_BTN_EW_TRAFFIC = HIGH \<longrightarrow>
      trafficCountEW (readButtons inp (readButtons inp s)) =
        trafficCountEW (readButtons inp s)) \<and>
   (inp (reads s) PIN_BTN_EW_TRAFFIC = HIGH \<and> inp (Suc (reads s)) PIN_BTN_EW_TRAFFIC = LOW \<and>
    isEwRed s \<longrightarrow>
      trafficCountEW (readButtons inp (readButtons inp s)) =
        trafficCountEW (readButtons inp s) + 1) \<and>
   (inp (reads s) PIN_BTN_PED_REQUEST = LOW \<or> inp (Suc (reads s)) PIN_BTN_PED_REQUEST = HIGH \<longrightarrow>
      pedRequest (readButtons inp (readButtons inp s)) = pedRequest (readButtons inp s)) \<and>
   (inp (reads s) PIN_BTN_PED_REQUEST = HIGH \<and> inp (Suc (reads s)) PIN_BTN_PED_REQUEST = LOW \<longrightarrow>
      pedRequest (readButtons inp (readButtons inp s)))"
    by (simp add: readButtons_step isNsRed_def isEwRed_def)
  have d: "(inp (reads v) PIN_BTN_NS_TRAFFIC = LOW \<or> inp (Suc (reads v)) PIN_BTN_NS_TRAFFIC = HIGH \<longrightarrow>
      trafficCountNS (readButtons_lcd inp (readButtons_lcd inp v)) =
        trafficCountNS (readButtons_lcd inp v)) \<and>
   (inp (reads v) PIN_BTN_NS_TRAFFIC = HIGH \<and> inp (Suc (reads v)) PIN_BTN_NS_TRAFFIC = LOW \<and>
    trafficCountNS (readButtons_lcd inp v) < MAX_TRAFFIC_COUNT \<longrightarrow>
      trafficCountNS (readButtons_lcd inp (readButtons_lcd inp v)) =
        trafficCountNS (readButtons_lcd inp v) + 1) \<and>
   (inp (reads v) PIN_BTN_EW_TRAFFIC = LOW \<or> inp (Suc (reads v)) PIN_BTN_EW_TRAFFIC = HIGH \<longrightarrow>
      trafficCountEW (readButtons_lcd inp (readButtons_lcd inp v)) =
        trafficCountEW (readButtons_lcd inp v)) \<and>
   (inp (reads v) PIN_BTN_EW_TRAFFIC = HIGH \<and> inp (Suc (reads v)) PIN_BTN_EW_TRAFFIC = LOW \<and>
    trafficCountEW (readButtons_lcd inp v) < MAX_TRAFFIC_COUNT \<longrightarrow>
      trafficCountEW (readButtons_lcd inp (readButtons_lcd inp v)) =
        trafficCountEW (readButtons_lcd inp v) + 1) \<and>
   (inp (reads v) PIN_BTN_PED_REQUEST = LOW \<or> inp (Suc (reads v)) PIN_BTN_PED_REQUEST = HIGH \<longrightarrow>
      pedRequest (readButtons_lcd inp (readButtons_lcd inp v)) =
        pedRequest (readButtons_lcd inp v)) \<and>
   (inp (reads v) PIN_BTN_PED_REQUEST = HIGH \<and> inp (Suc (reads v)) PIN_BTN_PED_REQUEST = LOW \<longrightarrow>
      pedRequest (readButtons_lcd inp (readButtons_lcd inp v)))"
    by (simp add: readButtons_lcd_step capped_def MAX_TRAFFIC_COUNT_def)
  from a b c d show ?thesis
    apply (elim conjE)
    apply (intro conjI)
    apply assumption+
    done
qed


theorem press_event_once_per_press_witness:
  "trafficCountNS
     ((readButtons (heldAt [(PIN_BTN_NS_TRAFFIC, 1), (PIN_BTN_NS_TRAFFIC, 2),
          (PIN_BTN_NS_TRAFFIC, 3), (PIN_BTN_NS_TRAFFIC, 5), (PIN_BTN_PED_REQUEST, 1)]) ^^ 7)
        (initial\<lparr>currentPhase := PHASE_EW_GREEN\<rparr>)) = 2 \<and>
   pedRequest
     ((readButtons (heldAt [(PIN_BTN_NS_TRAFFIC, 1), (PIN_BTN_NS_TRAFFIC, 2),
          (PIN_BTN_NS_TRAFFIC, 3), (PIN_BTN_NS_TRAFFIC, 5), (PIN_BTN_PED_REQUEST, 1)]) ^^ 7)
        (initial\<lparr>currentPhase := PHASE_EW_GREEN\<rparr>)) \<and>
   trafficCountNS
     ((readButtons_lcd (heldAt [(PIN_BTN_NS_TRAFFIC, 1), (PIN_BTN_NS_TRAFFIC, 2),
          (PIN_BTN_NS_TRAFFIC, 3), (PIN_BTN_NS_TRAFFIC, 5), (PIN_BTN_PED_REQUEST, 1)]) ^^ 7)
        initial_lcd) = 2 \<and>
   trafficCountNS
     ((readButtons (heldAt [(PIN_BTN_NS_TRAFFIC, 1), (PIN_BTN_NS_TRAFFIC, 2),
          (PIN_BTN_NS_TRAFFIC, 3), (PIN_BTN_NS_TRAFFIC, 5), (PIN_BTN_PED_REQUEST, 1)]) ^^ 2)
        (initial\<lparr>currentPhase := PHASE_EW_GREEN\<rparr>)) = 1 \<and>
   trafficCountNS
     ((readButtons (heldAt [(PIN_BTN_NS_TRAFFIC, 1), (PIN_BTN_NS_TRAFFIC, 2),
          (PIN_BTN_NS_TRAFFIC, 3), (PIN_BTN_NS_TRAFFIC, 5), (PIN_BTN_PED_REQUEST, 1)]) ^^ 4)
        (initial\<lparr>currentPhase := PHASE_EW_GREEN\<rparr>)) = 1"
proof -
  let ?inp = "heldAt [(PIN_BTN_NS_TRAFFIC, 1), (PIN_BTN_NS_TRAFFIC, 2),
          (PIN_BTN_NS_TRAFFIC, 3), (PIN_BTN_NS_TRAFFIC, 5), (PIN_BTN_PED_REQUEST, 1)]"
  let ?s = "initial\<lparr>currentPhase := PHASE_EW_GREEN\<rparr>"
  have p7: "presses ?inp PIN_BTN_NS_TRAFFIC HIGH 0 7 = 2"
    by (simp add: eval_nat_numeral heldAt_def pin_defs)
  have p4: "presses ?inp PIN_BTN_NS_TRAFFIC HIGH 0 4 = 1"
    by (simp add: eval_nat_numeral heldAt_def pin_defs)
  have p2: "presses ?inp PIN_BTN_NS_TRAFFIC HIGH 0 2 = 1"
    by (simp add: eval_nat_numeral heldAt_def pin_defs)
  have q7: "presses ?inp PIN_BTN_PED_REQUEST HIGH 0 7 = 1"
    by (simp add: eval_nat_numeral heldAt_def pin_defs)
  show ?thesis
    using p7 p4 p2 q7
      press_event_once_per_press [of ?inp ?s initial_lcd 7]
      press_event_once_per_press [of ?inp ?s initial_lcd 2]
      press_event_once_per_press [of ?inp ?s initial_lcd 4]
    by (simp add: initial_def initial_lcd_def isNsRed_def capped_def MAX_TRAFFIC_COUNT_def)
qed

section \<open>The latch and the pedestrian head across the phases\<close>

lemma pedGreen_writes:
  "count_list (wlog (setAllVehicleRed out)) (PIN_PED_GREEN, HIGH) =
     count_list (wlog out) (PIN_PED_GREEN, HIGH)"
  "count_list (wlog (setNsGreenState out)) (PIN_PED_GREEN, HIGH) =
     count_list (wlog out) (PIN_PED_GREEN, HIGH)"
  "count_list (wlog (setNsYellowState out)) (PIN_PED_GREEN, HIGH) =
     count_list (wlog out) (PIN_PED_GREEN, HIGH)"
  "count_list (wlog (setEwGreenState out)) (PIN_PED_GREEN, HIGH) =
     count_list (wlog out) (PIN_PED_GREEN, HIGH)"
  "count_list (wlog (setEwYellowState out)) (PIN_PED_GREEN, HIGH) =
     count_list (wlog out) (PIN_PED_GREEN, HIGH)"
  "count_list (wlog (setPedestrianGreenState out)) (PIN_PED_GREEN, HIGH) =
     Suc (count_list (wlog out) (PIN_PED_GREEN, HIGH))"
  "count_list (wlog (digitalWrite PIN_PED_RED HIGH out)) (PIN_PED_GREEN, HIGH) =
     count_list (wlog out) (PIN_PED_GREEN, HIGH)"
  "count_list (wlog (digitalWrite PIN_PED_GREEN LOW out)) (PIN_PED_GREEN, HIGH) =
     count_list (wlog out) (PIN_PED_GREEN, HIGH)"
  by (simp_all add: set_defs pin_defs)

lemma pedestrianPhases_vehicle:
  "pedestrianPhases (phaseNsGreen inp s) = pedestrianPhases s"
  "pedestrianPhases (phaseNsYellow inp s) = pedestrianPhases s"
  "pedestrianPhases (phaseEwGreen inp s) = pedestrianPhases s"
  "pedestrianPhases (phaseEwYellow inp s) = pedestrianPhases s"
  by (simp_all add: pedestrianPhases_def phaseNsGreen_eq phaseNsYellow_eq phaseEwGreen_eq
      phaseEwYellow_eq pedGreen_writes eval_nat_numeral)

lemma pedestrianPhases_pedestrian:
  "pedestrianPhases (phasePedestrianIfRequested inp s) =
     pedestrianPhases s + (if pedRequest s then 1 else 0)"
  by (simp add: pedestrianPhases_def phasePedestrianIfRequested_eq pedGreen_writes)

lemma pedRequest_phases:
  "pedRequest (phaseNsGreen inp s) =
     (pedRequest s \<or>
      0 < presses inp PIN_BTN_PED_REQUEST (lastPedBtnState s) (reads s)
            (50 * nat (computeNsGreenSeconds s)))"
  "pedRequest (phaseEwGreen inp s) =
     (pedRequest s \<or>
      0 < presses inp PIN_BTN_PED_REQUEST (lastPedBtnState s) (reads s)
            (50 * nat (computeEwGreenSeconds s)))"
  "pedRequest (phaseNsYellow inp s) =
     (pedRequest s \<or> 0 < presses inp PIN_BTN_PED_REQUEST (lastPedBtnState s) (reads s) 150)"
  "pedRequest (phaseEwYellow inp s) =
     (pedRequest s \<or> 0 < presses inp PIN_BTN_PED_REQUEST (lastPedBtnState s) (reads s) 150)"
  "pedRequest (phasePedestrianIfRequested inp s) = False"
  by (simp_all add: phaseNsGreen_eq phaseNsYellow_eq phaseEwGreen_eq phaseEwYellow_eq
      phasePedestrianIfRequested_eq)

lemma reads_phases:
  "reads (phaseNsGreen inp s) = reads s + 50 * nat (computeNsGreenSeconds s)"
  "reads (phaseEwGreen inp s) = reads s + 50 * nat (computeEwGreenSeconds s)"
  "reads (phaseNsYellow inp s) = reads s + 150"
  "reads (phaseEwYellow inp s) = reads s + 150"
  "reads (phasePedestrianIfRequested inp s) = reads s + (if pedRequest s then 400 else 0)"
  by (simp_all add: phaseNsGreen_eq phaseNsYellow_eq phaseEwGreen_eq phaseEwYellow_eq
      phasePedestrianIfRequested_eq)

lemma lastPed_phases:
  "lastPedBtnState (phaseNsGreen inp s) =
     lastSample inp PIN_BTN_PED_REQUEST (lastPedBtnState s) (reads s)
       (50 * nat (computeNsGreenSeconds s))"
  "lastPedBtnState (phaseEwGreen inp s) =
     lastSample inp PIN_BTN_PED_REQUEST (lastPedBtnState s) (reads s)
       (50 * nat (computeEwGreenSeconds s))"
  "lastPedBtnState (phaseNsYellow inp s) =
     lastSample inp PIN_BTN_PED_REQUEST (lastPedBtnState s) (reads s) 150"
  "lastPedBtnState (phaseEwYellow inp s) =
     lastSample inp PIN_BTN_PED_REQUEST (lastPedBtnState s) (reads s) 150"
  by (simp_all add: phaseNsGreen_eq phaseNsYellow_eq phaseEwGreen_eq phaseEwYellow_eq)

lemma pedRequest_green_yellow:
  "pedRequest (phaseEwYellow inp (phaseEwGreen inp s)) =
     (pedRequest s \<or>
      0 < presses inp PIN_BTN_PED_REQUEST (lastPedBtnState s) (reads s)
            (50 * nat (computeEwGreenSeconds s) + 150))"
  "pedRequest (phaseNsYellow inp (phaseNsGreen inp s)) =
     (pedRequest s \<or>
      0 < presses inp PIN_BTN_PED_REQUEST (lastPedBtnState s) (reads s)
            (50 * nat (computeNsGreenSeconds s) + 150))"
  by (auto simp add: pedRequest_phases reads_phases lastPed_phases presses_add)

section \<open>The pedestrian insertion points\<close>

text \<open>
  C7. One pass of \<^verbatim>\<open>loop()\<close> calls \<^verbatim>\<open>phasePedestrianIfRequested\<close> right after
  \<^verbatim>\<open>phaseNsYellow\<close> and right after \<^verbatim>\<open>phaseEwYellow\<close>. The pedestrian head is
  switched to green nowhere else, and at each of the two calls exactly when the latch
  is true there: with the latch false the call changes nothing, with the latch true
  it runs the pedestrian phase once (400 samples long) and returns with the latch
  false. A pedestrian press event sampled during the NS-green dwell makes the latch
  true at the first insertion point, so the pedestrian phase runs there and the latch
  is false when it ends; if no further press event is sampled during the EW green
  and yellow dwells, the second insertion point is not taken and the pass runs the
  pedestrian phase exactly once.
\<close>

theorem pedestrian_phase_iff_latch:
  "loop inp s = phasePedestrianIfRequested inp (atSecondInsertion inp s) \<and>
   pedestrianPhases (atFirstInsertion inp s) = pedestrianPhases s \<and>
   pedestrianPhases (afterFirstInsertion inp s) =
     pedestrianPhases (atFirstInsertion inp s) +
     (if pedRequest (atFirstInsertion inp s) then 1 else 0) \<and>
   pedestrianPhases (atSecondInsertion inp s) = pedestrianPhases (afterFirstInsertion inp s) \<and>
   pedestrianPhases (loop inp s) =
     pedestrianPhases (atSecondInsertion inp s) +
     (if pedRequest (atSecondInsertion inp s) then 1 else 0) \<and>
   (\<not> pedRequest t \<longrightarrow> phasePedestrianIfRequested inp t = t) \<and>
   (pedRequest t \<longrightarrow>
      currentPhase (phasePedestrianIfRequested inp t) = PHASE_PED_GREEN \<and>
      reads (phasePedestrianIfRequested inp t) = reads t + 50 * nat PED_TIME_SEC \<and>
      pedestrianPhases (phasePedestrianIfRequested inp t) = pedestrianPhases t + 1 \<and>
      \<not> pedRequest (phasePedestrianIfRequested inp t)) \<and>
   (0 < presses inp PIN_BTN_PED_REQUEST (lastPedBtnState s) (reads s)
          (50 * nat (computeNsGreenSeconds s)) \<longrightarrow>
      pedRequest (atFirstInsertion inp s) \<and>
      pedestrianPhases (afterFirstInsertion inp s) = pedestrianPhases s + 1 \<and>
      \<not> pedRequest (afterFirstInsertion inp s) \<and>
      (presses inp PIN_BTN_PED_REQUEST (lastPedBtnState (afterFirstInsertion inp s))
         (reads (afterFirstInsertion inp s))
         (50 * nat (computeEwGreenSeconds (afterFirstInsertion inp s)) + 150) = 0 \<longrightarrow>
       \<not> pedRequest (atSecondInsertion inp s) \<and>
       pedestrianPhases (loop inp s) = pedestrianPhases s + 1))"
proof -
  have l: "loop inp s = phasePedestrianIfRequested inp (atSecondInsertion inp s)"
    by (simp add: loop_def Let_def atSecondInsertion_def afterFirstInsertion_def
        atFirstInsertion_def)
  have c1: "pedestrianPhases (atFirstInsertion inp s) = pedestrianPhases s"
    by (simp add: atFirstInsertion_def pedestrianPhases_vehicle)
  have c2: "pedestrianPhases (afterFirstInsertion inp s) =
     pedestrianPhases (atFirstInsertion inp s) +
     (if pedRequest (atFirstInsertion inp s) then 1 else 0)"
    by (simp only: afterFirstInsertion_def pedestrianPhases_pedestrian)
  have c3: "pedestrianPhases (atSecondInsertion inp s) =
     pedestrianPhases (afterFirstInsertion inp s)"
    by (simp add: atSecondInsertion_def pedestrianPhases_vehicle)
  have c4: "pedestrianPhases (loop inp s) =
     pedestrianPhases (atSecondInsertion inp s) +
     (if pedRequest (atSecondInsertion inp s) then 1 else 0)"
    by (simp only: l pedestrianPhases_pedestrian)
  have n: "\<not> pedRequest t \<longrightarrow> phasePedestrianIfRequested inp t = t"
    by (simp add: phasePedestrianIfRequested_def)
  have y: "pedRequest t \<longrightarrow>
      currentPhase (phasePedestrianIfRequested inp t) = PHASE_PED_GREEN \<and>
      reads (phasePedestrianIfRequested inp t) = reads t + 50 * nat PED_TIME_SEC \<and>
      pedestrianPhases (phasePedestrianIfRequested inp t) = pedestrianPhases t + 1 \<and>
      \<not> pedRequest (phasePedestrianIfRequested inp t)"
    by (simp add: pedestrianPhases_pedestrian pedRequest_phases reads_phases PED_TIME_SEC_def)
      (simp add: phasePedestrianIfRequested_eq)
  have after: "\<not> pedRequest (afterFirstInsertion inp s)"
    by (simp add: afterFirstInsertion_def pedRequest_phases)
  have p: "0 < presses inp PIN_BTN_PED_REQUEST (lastPedBtnState s) (reads s)
          (50 * nat (computeNsGreenSeconds s)) \<longrightarrow>
      pedRequest (atFirstInsertion inp s) \<and>
      pedestrianPhases (afterFirstInsertion inp s) = pedestrianPhases s + 1 \<and>
      \<not> pedRequest (afterFirstInsertion inp s) \<and>
      (presses inp PIN_BTN_PED_REQUEST (lastPedBtnState (afterFirstInsertion inp s))
         (reads (afterFirstInsertion inp s))
         (50 * nat (computeEwGreenSeconds (afterFirstInsertion inp s)) + 150) = 0 \<longrightarrow>
       \<not> pedRequest (atSecondInsertion inp s) \<and>
       pedestrianPhases (loop inp s) = pedestrianPhases s + 1)"
  proof (intro impI conjI)
    assume h: "0 < presses inp PIN_BTN_PED_REQUEST (lastPedBtnState s) (reads s)
          (50 * nat (computeNsGreenSeconds s))"
    then show r1: "pedRequest (atFirstInsertion inp s)"
      by (simp add: atFirstInsertion_def pedRequest_phases)
    with c1 c2 show r2: "pedestrianPhases (afterFirstInsertion inp s) = pedestrianPhases s + 1"
      by simp
    show "\<not> pedRequest (afterFirstInsertion inp s)" by (rule after)
    assume q: "presses inp PIN_BTN_PED_REQUEST (lastPedBtnState (afterFirstInsertion inp s))
         (reads (afterFirstInsertion inp s))
         (50 * nat (computeEwGreenSeconds (afterFirstInsertion inp s)) + 150) = 0"
    with after show r3: "\<not> pedRequest (atSecondInsertion inp s)"
      by (simp add: atSecondInsertion_def pedRequest_green_yellow)
    with c3 c4 r2 show "pedestrianPhases (loop inp s) = pedestrianPhases s + 1"
      by simp
  qed
  from l c1 c2 c3 c4 n y p show ?thesis
    apply (intro conjI)
    apply assumption+
    done
qed


theorem pedestrian_phase_iff_latch_witness:
  "0 < presses (heldAt [(PIN_BTN_PED_REQUEST, 5)]) PIN_BTN_PED_REQUEST
         (lastPedBtnState initial) (reads initial) (50 * nat (computeNsGreenSeconds initial)) \<and>
   pedRequest (atFirstInsertion (heldAt [(PIN_BTN_PED_REQUEST, 5)]) initial) \<and>
   pedestrianPhases (afterFirstInsertion (heldAt [(PIN_BTN_PED_REQUEST, 5)]) initial) = 1 \<and>
   \<not> pedRequest (afterFirstInsertion (heldAt [(PIN_BTN_PED_REQUEST, 5)]) initial) \<and>
   \<not> pedRequest (atSecondInsertion (heldAt [(PIN_BTN_PED_REQUEST, 5)]) initial) \<and>
   pedestrianPhases (loop (heldAt [(PIN_BTN_PED_REQUEST, 5)]) initial) = 1 \<and>
   phasePedestrianIfRequested (heldAt [(PIN_BTN_PED_REQUEST, 5)]) initial = initial \<and>
   currentPhase (phasePedestrianIfRequested (heldAt [(PIN_BTN_PED_REQUEST, 5)])
     (initial\<lparr>pedRequest := True\<rparr>)) = PHASE_PED_GREEN"
proof -
  let ?inp = "heldAt [(PIN_BTN_PED_REQUEST, 5)]"
  let ?a = "afterFirstInsertion ?inp initial"
  have "presses ?inp PIN_BTN_PED_REQUEST HIGH 0 (6 + 494) = presses ?inp PIN_BTN_PED_REQUEST HIGH 0 6"
    by (rule presses_window) (simp add: heldAt_def)
  also have "\<dots> = 1"
    by (simp add: eval_nat_numeral heldAt_def pin_defs)
  finally have "presses ?inp PIN_BTN_PED_REQUEST HIGH 0 500 = 1" by simp
  then have h1: "0 < presses ?inp PIN_BTN_PED_REQUEST (lastPedBtnState initial) (reads initial)
      (50 * nat (computeNsGreenSeconds initial))"
    by (simp add: initial_def computeNsGreenSeconds_def BASE_GREEN_SEC_def)
  have "650 \<le> reads ?a"
    by (simp add: afterFirstInsertion_def atFirstInsertion_def reads_phases
        computeNsGreenSeconds_def BASE_GREEN_SEC_def initial_def)
  then have h2: "presses ?inp PIN_BTN_PED_REQUEST (lastPedBtnState ?a) (reads ?a)
      (50 * nat (computeEwGreenSeconds ?a) + 150) = 0"
    by (intro presses_released) (simp add: heldAt_def)
  have z: "pedestrianPhases initial = 0"
    by (simp add: pedestrianPhases_def initial_def powerOn_def)
  have i: "\<not> pedRequest initial" "pedRequest (initial\<lparr>pedRequest := True\<rparr>)"
    by (simp_all add: initial_def)
  show ?thesis
    using h1 h2 z i
      pedestrian_phase_iff_latch [of ?inp initial initial]
      pedestrian_phase_iff_latch [of ?inp initial "initial\<lparr>pedRequest := True\<rparr>"]
    by simp
qed

section \<open>Inputs that deliver the same samples\<close>

lemma lastSample_eq:
  "lastSample inp p prev r n = (if n = 0 then prev else inp (r + n - 1) p)"
  by (cases n) (simp_all add: lastSample_Suc del: lastSample.simps(2))

lemma sampled_agree:
  assumes ns: "\<And>k. k < n \<Longrightarrow> inp1 (reads s + k) PIN_BTN_NS_TRAFFIC = inp2 (reads s + k) PIN_BTN_NS_TRAFFIC"
    and ew: "\<And>k. k < n \<Longrightarrow> inp1 (reads s + k) PIN_BTN_EW_TRAFFIC = inp2 (reads s + k) PIN_BTN_EW_TRAFFIC"
    and lastp: "0 < n \<Longrightarrow> inp1 (reads s + n - 1) PIN_BTN_PED_REQUEST = inp2 (reads s + n - 1) PIN_BTN_PED_REQUEST"
    and latch: "(pedRequest s \<or> 0 < presses inp1 PIN_BTN_PED_REQUEST (lastPedBtnState s) (reads s) n) =
       (pedRequest s \<or> 0 < presses inp2 PIN_BTN_PED_REQUEST (lastPedBtnState s) (reads s) n)"
  shows "sampled inp1 n s = sampled inp2 n s"
proof -
  have a: "presses inp1 PIN_BTN_NS_TRAFFIC prev (reads s) n =
      presses inp2 PIN_BTN_NS_TRAFFIC prev (reads s) n" for prev
    using ns by (rule presses_cong)
  have b: "presses inp1 PIN_BTN_EW_TRAFFIC prev (reads s) n =
      presses inp2 PIN_BTN_EW_TRAFFIC prev (reads s) n" for prev
    using ew by (rule presses_cong)
  have c: "lastSample inp1 PIN_BTN_NS_TRAFFIC prev (reads s) n =
      lastSample inp2 PIN_BTN_NS_TRAFFIC prev (reads s) n" for prev
    using ns [of "n - 1"] by (simp add: lastSample_eq)
  have d: "lastSample inp1 PIN_BTN_EW_TRAFFIC prev (reads s) n =
      lastSample inp2 PIN_BTN_EW_TRAFFIC prev (reads s) n" for prev
    using ew [of "n - 1"] by (simp add: lastSample_eq)
  have e: "lastSample inp1 PIN_BTN_PED_REQUEST prev (reads s) n =
      lastSample inp2 PIN_BTN_PED_REQUEST prev (reads s) n" for prev
    using lastp by (simp add: lastSample_eq)
  show ?thesis
    unfolding sampled_def by (simp only: a b c d e latch)
qed

lemma sampled_cong:
  assumes "agreeFrom (reads s) inp1 inp2"
  shows "sampled inp1 n s = sampled inp2 n s"
proof (rule sampled_agree)
  show "inp1 (reads s + k) PIN_BTN_NS_TRAFFIC = inp2 (reads s + k) PIN_BTN_NS_TRAFFIC" for k
    using assms by (simp add: agreeFrom_def)
  show "inp1 (reads s + k) PIN_BTN_EW_TRAFFIC = inp2 (reads s + k) PIN_BTN_EW_TRAFFIC" for k
    using assms by (simp add: agreeFrom_def)
  show "inp1 (reads s + n - 1) PIN_BTN_PED_REQUEST = inp2 (reads s + n - 1) PIN_BTN_PED_REQUEST"
    if "0 < n"
    using assms that by (simp add: agreeFrom_def)
  have "presses inp1 PIN_BTN_PED_REQUEST (lastPedBtnState s) (reads s) n =
      presses inp2 PIN_BTN_PED_REQUEST (lastPedBtnState s) (reads s) n"
    by (rule presses_cong) (use assms in \<open>simp add: agreeFrom_def\<close>)
  then show "(pedRequest s \<or> 0 < presses inp1 PIN_BTN_PED_REQUEST (lastPedBtnState s) (reads s) n) =
       (pedRequest s \<or> 0 < presses inp2 PIN_BTN_PED_REQUEST (lastPedBtnState s) (reads s) n)"
    by simp
qed


lemma agreeFrom_mono: "agreeFrom r inp1 inp2 \<Longrightarrow> r \<le> r' \<Longrightarrow> agreeFrom r' inp1 inp2"
  by (simp add: agreeFrom_def)

lemma phases_cong:
  assumes "agreeFrom (reads s) inp1 inp2"
  shows "phaseNsGreen inp1 s = phaseNsGreen inp2 s"
    and "phaseNsYellow inp1 s = phaseNsYellow inp2 s"
    and "phaseEwGreen inp1 s = phaseEwGreen inp2 s"
    and "phaseEwYellow inp1 s = phaseEwYellow inp2 s"
    and "phasePedestrianIfRequested inp1 s = phasePedestrianIfRequested inp2 s"
  using assms
  by (simp_all add: phaseNsGreen_eq phaseNsYellow_eq phaseEwGreen_eq phaseEwYellow_eq
      phasePedestrianIfRequested_eq sampled_cong)

lemma reads_mono:
  "reads s \<le> reads (phaseNsGreen inp s)"
  "reads s \<le> reads (phaseNsYellow inp s)"
  "reads s \<le> reads (phaseEwGreen inp s)"
  "reads s \<le> reads (phaseEwYellow inp s)"
  "reads s \<le> reads (phasePedestrianIfRequested inp s)"
  by (simp_all add: reads_phases)

lemma restOfLoop_cong:
  assumes a: "agreeFrom (reads s) inp1 inp2"
  shows "restOfLoop inp1 s = restOfLoop inp2 s"
proof -
  let ?s1 = "phaseNsYellow inp1 s"
  have e1: "?s1 = phaseNsYellow inp2 s" using a by (rule phases_cong)
  have a1: "agreeFrom (reads ?s1) inp1 inp2"
    using a reads_mono(2) by (rule agreeFrom_mono)
  let ?s2 = "phasePedestrianIfRequested inp1 ?s1"
  have e2: "?s2 = phasePedestrianIfRequested inp2 ?s1" using a1 by (rule phases_cong)
  have a2: "agreeFrom (reads ?s2) inp1 inp2"
    using a1 reads_mono(5) by (rule agreeFrom_mono)
  let ?s3 = "phaseEwGreen inp1 ?s2"
  have e3: "?s3 = phaseEwGreen inp2 ?s2" using a2 by (rule phases_cong)
  have a3: "agreeFrom (reads ?s3) inp1 inp2"
    using a2 reads_mono(3) by (rule agreeFrom_mono)
  let ?s4 = "phaseEwYellow inp1 ?s3"
  have e4: "?s4 = phaseEwYellow inp2 ?s3" using a3 by (rule phases_cong)
  have a4: "agreeFrom (reads ?s4) inp1 inp2"
    using a3 reads_mono(4) by (rule agreeFrom_mono)
  have e5: "phasePedestrianIfRequested inp1 ?s4 = phasePedestrianIfRequested inp2 ?s4"
    using a4 by (rule phases_cong)
  show ?thesis
    unfolding restOfLoop_def using e1 e2 e3 e4 e5 by simp
qed

lemma loop_restOfLoop: "loop inp s = restOfLoop inp (phaseNsGreen inp s)"
  by (simp add: loop_def restOfLoop_def Let_def)

lemma sampled_lcd_agree:
  assumes ns: "\<And>k. k < n \<Longrightarrow> inp1 (reads s + k) PIN_BTN_NS_TRAFFIC = inp2 (reads s + k) PIN_BTN_NS_TRAFFIC"
    and ew: "\<And>k. k < n \<Longrightarrow> inp1 (reads s + k) PIN_BTN_EW_TRAFFIC = inp2 (reads s + k) PIN_BTN_EW_TRAFFIC"
    and lastp: "0 < n \<Longrightarrow> inp1 (reads s + n - 1) PIN_BTN_PED_REQUEST = inp2 (reads s + n - 1) PIN_BTN_PED_REQUEST"
    and latch: "(pedRequest s \<or> 0 < presses inp1 PIN_BTN_PED_REQUEST (lastPedBtnState s) (reads s) n) =
       (pedRequest s \<or> 0 < presses inp2 PIN_BTN_PED_REQUEST (lastPedBtnState s) (reads s) n)"
  shows "sampled_lcd inp1 n s = sampled_lcd inp2 n s"
proof -
  have a: "presses inp1 PIN_BTN_NS_TRAFFIC prev (reads s) n =
      presses inp2 PIN_BTN_NS_TRAFFIC prev (reads s) n" for prev
    using ns by (rule presses_cong)
  have b: "presses inp1 PIN_BTN_EW_TRAFFIC prev (reads s) n =
      presses inp2 PIN_BTN_EW_TRAFFIC prev (reads s) n" for prev
    using ew by (rule presses_cong)
  have c: "lastSample inp1 PIN_BTN_NS_TRAFFIC prev (reads s) n =
      lastSample inp2 PIN_BTN_NS_TRAFFIC prev (reads s) n" for prev
    using ns [of "n - 1"] by (simp add: lastSample_eq)
  have d: "lastSample inp1 PIN_BTN_EW_TRAFFIC prev (reads s) n =
      lastSample inp2 PIN_BTN_EW_TRAFFIC prev (reads s) n" for prev
    using ew [of "n - 1"] by (simp add: lastSample_eq)
  have e: "lastSample inp1 PIN_BTN_PED_REQUEST prev (reads s) n =
      lastSample inp2 PIN_BTN_PED_REQUEST prev (reads s) n" for prev
    using lastp by (simp add: lastSample_eq)
  show ?thesis
    unfolding sampled_lcd_def by (simp only: a b c d e latch)
qed

section \<open>New presses, the phases of main_withlcd.cpp, and states up to the pedestrian level\<close>

lemma presses_edge_iff:
  "0 < r \<Longrightarrow>
   (0 < presses inp p (inp (r - 1) p) r n) = (\<exists>k<n. pressEdge inp p (r + k))"
proof (induction n arbitrary: r)
  case 0
  show ?case by simp
next
  case (Suc n)
  have ih: "(0 < presses inp p (inp r p) (Suc r) n) = (\<exists>k<n. pressEdge inp p (Suc r + k))"
    using Suc.IH [of "Suc r"] by simp
  have split: "(\<exists>k<Suc n. pressEdge inp p (r + k)) =
      (pressEdge inp p r \<or> (\<exists>k<n. pressEdge inp p (Suc r + k)))"
  proof
    assume "\<exists>k<Suc n. pressEdge inp p (r + k)"
    then obtain k where k: "k < Suc n" "pressEdge inp p (r + k)" by blast
    show "pressEdge inp p r \<or> (\<exists>k<n. pressEdge inp p (Suc r + k))"
    proof (cases k)
      case 0
      with k show ?thesis by simp
    next
      case (Suc j)
      with k have "j < n" "pressEdge inp p (Suc r + j)" by simp_all
      then show ?thesis by blast
    qed
  next
    assume "pressEdge inp p r \<or> (\<exists>k<n. pressEdge inp p (Suc r + k))"
    then show "\<exists>k<Suc n. pressEdge inp p (r + k)"
    proof
      assume "pressEdge inp p r"
      then have "0 < Suc n \<and> pressEdge inp p (r + 0)" by simp
      then show ?thesis by blast
    next
      assume "\<exists>k<n. pressEdge inp p (Suc r + k)"
      then obtain k where "k < n" "pressEdge inp p (Suc r + k)" by blast
      then have "Suc k < Suc n \<and> pressEdge inp p (r + Suc k)" by simp
      then show ?thesis by blast
    qed
  qed
  show ?case
    by (simp only: split ih [symmetric]) (simp add: pressEdge_def)
qed

lemma phases_lcd_eq:
  "phaseNsGreen_lcd inp s =
     (sampled_lcd inp (nat (computeNsGreenSeconds_lcd s))
        (s\<lparr>pins := setNsGreenState (pins s)\<rparr>))\<lparr>trafficCountNS := 0\<rparr>"
  "phaseEwGreen_lcd inp s =
     (sampled_lcd inp (nat (computeEwGreenSeconds_lcd s))
        (s\<lparr>pins := setEwGreenState (pins s)\<rparr>))\<lparr>trafficCountEW := 0\<rparr>"
  "phaseNsYellow_lcd inp s = sampled_lcd inp 3 (s\<lparr>pins := setNsYellowState (pins s)\<rparr>)"
  "phaseEwYellow_lcd inp s = sampled_lcd inp 3 (s\<lparr>pins := setEwYellowState (pins s)\<rparr>)"
  by (simp_all add: phaseNsGreen_lcd_def phaseEwGreen_lcd_def phaseNsYellow_lcd_def
      phaseEwYellow_lcd_def Let_def forUpTo_funpow readButtons_lcd_funpow
      computeNsGreenSeconds_lcd_def computeEwGreenSeconds_lcd_def YELLOW_TIME_SEC_def)

lemma pedRequest_phases_lcd:
  "pedRequest (phaseNsGreen_lcd inp s) =
     (pedRequest s \<or>
      0 < presses inp PIN_BTN_PED_REQUEST (lastPedBtnState s) (reads s)
            (nat (computeNsGreenSeconds_lcd s)))"
  "pedRequest (phaseEwGreen_lcd inp s) =
     (pedRequest s \<or>
      0 < presses inp PIN_BTN_PED_REQUEST (lastPedBtnState s) (reads s)
            (nat (computeEwGreenSeconds_lcd s)))"
  "pedRequest (phaseNsYellow_lcd inp s) =
     (pedRequest s \<or> 0 < presses inp PIN_BTN_PED_REQUEST (lastPedBtnState s) (reads s) 3)"
  "pedRequest (phaseEwYellow_lcd inp s) =
     (pedRequest s \<or> 0 < presses inp PIN_BTN_PED_REQUEST (lastPedBtnState s) (reads s) 3)"
  "pedRequest (phasePedestrianIfRequested_lcd inp s) = False"
  by (simp_all add: phases_lcd_eq phasePedestrianIfRequested_lcd_eq)

lemma reads_phases_lcd:
  "reads (phaseNsGreen_lcd inp s) = reads s + nat (computeNsGreenSeconds_lcd s)"
  "reads (phaseEwGreen_lcd inp s) = reads s + nat (computeEwGreenSeconds_lcd s)"
  "reads (phaseNsYellow_lcd inp s) = reads s + 3"
  "reads (phaseEwYellow_lcd inp s) = reads s + 3"
  "reads (phasePedestrianIfRequested_lcd inp s) = reads s + (if pedRequest s then 8 else 0)"
  by (simp_all add: phases_lcd_eq phasePedestrianIfRequested_lcd_eq)

lemma lastPed_phases_lcd:
  "lastPedBtnState (phaseNsGreen_lcd inp s) =
     lastSample inp PIN_BTN_PED_REQUEST (lastPedBtnState s) (reads s)
       (nat (computeNsGreenSeconds_lcd s))"
  "lastPedBtnState (phaseEwGreen_lcd inp s) =
     lastSample inp PIN_BTN_PED_REQUEST (lastPedBtnState s) (reads s)
       (nat (computeEwGreenSeconds_lcd s))"
  by (simp_all add: phases_lcd_eq)

lemma pedRequest_green_yellow_lcd:
  "pedRequest (phaseEwYellow_lcd inp (phaseEwGreen_lcd inp s)) =
     (pedRequest s \<or>
      0 < presses inp PIN_BTN_PED_REQUEST (lastPedBtnState s) (reads s)
            (nat (computeEwGreenSeconds_lcd s) + 3))"
  "pedRequest (phaseNsYellow_lcd inp (phaseNsGreen_lcd inp s)) =
     (pedRequest s \<or>
      0 < presses inp PIN_BTN_PED_REQUEST (lastPedBtnState s) (reads s)
            (nat (computeNsGreenSeconds_lcd s) + 3))"
  by (auto simp add: pedRequest_phases_lcd reads_phases_lcd lastPed_phases_lcd presses_add)

lemma lastPed_pedestrian:
  "pedRequest s \<Longrightarrow>
   lastPedBtnState (phasePedestrianIfRequested inp s) = inp (reads s + 399) PIN_BTN_PED_REQUEST"
  "pedRequest v \<Longrightarrow>
   lastPedBtnState (phasePedestrianIfRequested_lcd inp v) = inp (reads v + 7) PIN_BTN_PED_REQUEST"
  by (simp_all add: phasePedestrianIfRequested_eq phasePedestrianIfRequested_lcd_eq lastSample_eq
      add.commute)








section \<open>Repeated pedestrian presses\<close>













lemma window_eqs:
  "nsWindow s = 50 * nat (computeNsGreenSeconds s) + 150"
  "ewWindow s = 50 * nat (computeEwGreenSeconds s) + 150"
  "pedWindow = 400"
  "nsWindow_lcd v = nat (computeNsGreenSeconds_lcd v) + 3"
  "ewWindow_lcd v = nat (computeEwGreenSeconds_lcd v) + 3"
  "pedWindow_lcd = 8"
  by (simp_all add: nsWindow_def ewWindow_def pedWindow_def nsWindow_lcd_def ewWindow_lcd_def
      pedWindow_lcd_def YELLOW_TIME_SEC_def PED_TIME_SEC_def)







section \<open>A press during the pedestrian phase\<close>

lemma next_latch:
  assumes "pedRequest s"
  shows "pedRequest (phaseEwYellow inp (phaseEwGreen inp (phasePedestrianIfRequested inp s))) =
      (\<exists>k<ewWindow (phasePedestrianIfRequested inp s).
         pressEdge inp PIN_BTN_PED_REQUEST (reads s + pedWindow + k))"
    and "pedRequest (phaseNsYellow inp (phaseNsGreen inp (phasePedestrianIfRequested inp s))) =
      (\<exists>k<nsWindow (phasePedestrianIfRequested inp s).
         pressEdge inp PIN_BTN_PED_REQUEST (reads s + pedWindow + k))"
proof -
  let ?t = "phasePedestrianIfRequested inp s"
  have r: "reads ?t = reads s + 400" using assms by (simp add: reads_phases)
  have l: "lastPedBtnState ?t = inp (reads s + 400 - 1) PIN_BTN_PED_REQUEST"
    using assms by (simp add: lastPed_pedestrian add.commute)
  have q: "\<not> pedRequest ?t" by (simp add: pedRequest_phases)
  have e: "(0 < presses inp PIN_BTN_PED_REQUEST (inp (reads s + 400 - 1) PIN_BTN_PED_REQUEST)
        (reads s + 400) n) =
      (\<exists>k<n. pressEdge inp PIN_BTN_PED_REQUEST (reads s + 400 + k))" for n
    by (rule presses_edge_iff) simp
  show "pedRequest (phaseEwYellow inp (phaseEwGreen inp ?t)) =
      (\<exists>k<ewWindow ?t. pressEdge inp PIN_BTN_PED_REQUEST (reads s + pedWindow + k))"
    by (simp only: pedRequest_green_yellow q r l e window_eqs simp_thms)
  show "pedRequest (phaseNsYellow inp (phaseNsGreen inp ?t)) =
      (\<exists>k<nsWindow ?t. pressEdge inp PIN_BTN_PED_REQUEST (reads s + pedWindow + k))"
    by (simp only: pedRequest_green_yellow q r l e window_eqs simp_thms)
qed

lemma next_latch_lcd:
  assumes "pedRequest v"
  shows "pedRequest (phaseEwYellow_lcd inp (phaseEwGreen_lcd inp
        (phasePedestrianIfRequested_lcd inp v))) =
      (\<exists>k<ewWindow_lcd (phasePedestrianIfRequested_lcd inp v).
         pressEdge inp PIN_BTN_PED_REQUEST (reads v + pedWindow_lcd + k))"
    and "pedRequest (phaseNsYellow_lcd inp (phaseNsGreen_lcd inp
        (phasePedestrianIfRequested_lcd inp v))) =
      (\<exists>k<nsWindow_lcd (phasePedestrianIfRequested_lcd inp v).
         pressEdge inp PIN_BTN_PED_REQUEST (reads v + pedWindow_lcd + k))"
proof -
  let ?t = "phasePedestrianIfRequested_lcd inp v"
  have r: "reads ?t = reads v + 8" using assms by (simp add: reads_phases_lcd)
  have l: "lastPedBtnState ?t = inp (reads v + 8 - 1) PIN_BTN_PED_REQUEST"
    using assms by (simp add: lastPed_pedestrian add.commute)
  have q: "\<not> pedRequest ?t" by (simp add: pedRequest_phases_lcd)
  have e: "(0 < presses inp PIN_BTN_PED_REQUEST (inp (reads v + 8 - 1) PIN_BTN_PED_REQUEST)
        (reads v + 8) n) =
      (\<exists>k<n. pressEdge inp PIN_BTN_PED_REQUEST (reads v + 8 + k))" for n
    by (rule presses_edge_iff) simp
  show "pedRequest (phaseEwYellow_lcd inp (phaseEwGreen_lcd inp ?t)) =
      (\<exists>k<ewWindow_lcd ?t. pressEdge inp PIN_BTN_PED_REQUEST (reads v + pedWindow_lcd + k))"
    by (simp only: pedRequest_green_yellow_lcd q r l e window_eqs simp_thms)
  show "pedRequest (phaseNsYellow_lcd inp (phaseNsGreen_lcd inp ?t)) =
      (\<exists>k<nsWindow_lcd ?t. pressEdge inp PIN_BTN_PED_REQUEST (reads v + pedWindow_lcd + k))"
    by (simp only: pedRequest_green_yellow_lcd q r l e window_eqs simp_thms)
qed

lemma pedestrian_phase_as_samples:
  "pedRequest s \<Longrightarrow>
   phasePedestrianIfRequested inp s =
     ((readButtons inp ^^ pedWindow)
        (s\<lparr>currentPhase := PHASE_PED_GREEN, pins := setPedestrianGreenState (pins s)\<rparr>))
       \<lparr>pins := digitalWrite PIN_PED_GREEN LOW (digitalWrite PIN_PED_RED HIGH
           (setAllVehicleRed (setPedestrianGreenState (pins s)))),
        pedRequest := False\<rparr>"
  "pedRequest v \<Longrightarrow>
   phasePedestrianIfRequested_lcd inp v =
     ((readButtons_lcd inp ^^ pedWindow_lcd) (v\<lparr>pins := setPedestrianGreenState (pins v)\<rparr>))
       \<lparr>pins := digitalWrite PIN_PED_GREEN LOW (digitalWrite PIN_PED_RED HIGH
           (setAllVehicleRed (setPedestrianGreenState (pins v)))),
        pedRequest := False\<rparr>"
  by (simp_all add: phasePedestrianIfRequested_eq phasePedestrianIfRequested_lcd_eq
      readButtons_funpow readButtons_lcd_funpow window_eqs sampled_pins_update
      sampled_lcd_pins_update)

lemma pedestrian_phase_lost:
  assumes "pedRequest s" "sameTraffic inp1 inp2 (reads s) pedWindow"
    "inp1 (reads s + pedWindow - 1) PIN_BTN_PED_REQUEST =
     inp2 (reads s + pedWindow - 1) PIN_BTN_PED_REQUEST"
  shows "phasePedestrianIfRequested inp1 s = phasePedestrianIfRequested inp2 s"
proof -
  let ?s = "s\<lparr>currentPhase := PHASE_PED_GREEN\<rparr>"
  have "sampled inp1 400 ?s = sampled inp2 400 ?s"
    by (rule sampled_agree) (use assms in \<open>simp_all add: sameTraffic_def window_eqs\<close>)
  then show ?thesis by (simp only: phasePedestrianIfRequested_eq)
qed

lemma pedestrian_phase_lost_lcd:
  assumes "pedRequest v" "sameTraffic inp1 inp2 (reads v) pedWindow_lcd"
    "inp1 (reads v + pedWindow_lcd - 1) PIN_BTN_PED_REQUEST =
     inp2 (reads v + pedWindow_lcd - 1) PIN_BTN_PED_REQUEST"
  shows "phasePedestrianIfRequested_lcd inp1 v = phasePedestrianIfRequested_lcd inp2 v"
proof -
  have "sampled_lcd inp1 8 v = sampled_lcd inp2 8 v"
    by (rule sampled_lcd_agree) (use assms in \<open>simp_all add: sameTraffic_def window_eqs\<close>)
  then show ?thesis by (simp only: phasePedestrianIfRequested_lcd_eq)
qed

text \<open>
  C9, for both sketches. \<^verbatim>\<open>phasePedestrianIfRequested\<close> returns with the latch false whatever
  the buttons do. A press event sets the latch in \<^verbatim>\<open>readButtons\<close>. When the latch is set on entry,
  the phase is exactly its dwell, \<open>pedWindow\<close> calls of \<^verbatim>\<open>readButtons\<close> (400 in main.cpp, 8 in
  main_withlcd.cpp) on the state with the pedestrian head green, followed by the closing writes and
  the clearing of the latch; the latch is true after every number of calls of the dwell, the
  phase consumes \<open>pedWindow\<close> samples and leaves as stored pedestrian level the last sample of the
  dwell. Two inputs that differ only in pedestrian presses within the dwell, and agree on its last
  pedestrian sample, leave the same state. At the next insertion point, after the EW phases and
  likewise after the NS phases, the latch is true exactly when some sample after the dwell is LOW
  with the sample before it HIGH, where the sample before the first one is the last of the dwell:
  a press held from the dwell into the next phase is no new press. When there is no such sample
  the next insertion point changes nothing.
\<close>

theorem press_during_pedestrian_phase_lost:
  "(\<not> pedRequest (phasePedestrianIfRequested inp s)) \<and>
   (inp (reads s) PIN_BTN_PED_REQUEST = LOW \<and> lastPedBtnState s = HIGH \<longrightarrow>
      pedRequest (readButtons inp s)) \<and>
   (pedRequest s \<longrightarrow>
      phasePedestrianIfRequested inp s =
        ((readButtons inp ^^ pedWindow) (s\<lparr>currentPhase := PHASE_PED_GREEN, pins := setPedestrianGreenState (pins s)\<rparr>))
          \<lparr>pins := digitalWrite PIN_PED_GREEN LOW (digitalWrite PIN_PED_RED HIGH
              (setAllVehicleRed (setPedestrianGreenState (pins s)))),
           pedRequest := False\<rparr> \<and>
      pedRequest ((readButtons inp ^^ j) (s\<lparr>currentPhase := PHASE_PED_GREEN, pins := setPedestrianGreenState (pins s)\<rparr>)) \<and>
      reads (phasePedestrianIfRequested inp s) = reads s + pedWindow \<and>
      lastPedBtnState (phasePedestrianIfRequested inp s) = inp (reads s + pedWindow - 1) PIN_BTN_PED_REQUEST) \<and>
   (pedRequest s \<and> sameTraffic inp1 inp2 (reads s) pedWindow \<and>
    inp1 (reads s + pedWindow - 1) PIN_BTN_PED_REQUEST =
      inp2 (reads s + pedWindow - 1) PIN_BTN_PED_REQUEST \<longrightarrow>
      phasePedestrianIfRequested inp1 s = phasePedestrianIfRequested inp2 s) \<and>
   (pedRequest s \<longrightarrow>
      pedRequest (phaseEwYellow inp (phaseEwGreen inp (phasePedestrianIfRequested inp s))) =
        (\<exists>k<ewWindow (phasePedestrianIfRequested inp s). pressEdge inp PIN_BTN_PED_REQUEST (reads s + pedWindow + k)) \<and>
      pedRequest (phaseNsYellow inp (phaseNsGreen inp (phasePedestrianIfRequested inp s))) =
        (\<exists>k<nsWindow (phasePedestrianIfRequested inp s). pressEdge inp PIN_BTN_PED_REQUEST (reads s + pedWindow + k))) \<and>
   (pedRequest s \<and>
    (\<forall>k<ewWindow (phasePedestrianIfRequested inp s). \<not> pressEdge inp PIN_BTN_PED_REQUEST (reads s + pedWindow + k)) \<longrightarrow>
      phasePedestrianIfRequested inp (phaseEwYellow inp (phaseEwGreen inp (phasePedestrianIfRequested inp s))) =
        phaseEwYellow inp (phaseEwGreen inp (phasePedestrianIfRequested inp s))) \<and>
   (pedRequest s \<and>
    (\<forall>k<nsWindow (phasePedestrianIfRequested inp s). \<not> pressEdge inp PIN_BTN_PED_REQUEST (reads s + pedWindow + k)) \<longrightarrow>
      phasePedestrianIfRequested inp (phaseNsYellow inp (phaseNsGreen inp (phasePedestrianIfRequested inp s))) =
        phaseNsYellow inp (phaseNsGreen inp (phasePedestrianIfRequested inp s))) \<and>
   (\<not> pedRequest (phasePedestrianIfRequested_lcd inp v)) \<and>
   (inp (reads v) PIN_BTN_PED_REQUEST = LOW \<and> lastPedBtnState v = HIGH \<longrightarrow>
      pedRequest (readButtons_lcd inp v)) \<and>
   (pedRequest v \<longrightarrow>
      phasePedestrianIfRequested_lcd inp v =
        ((readButtons_lcd inp ^^ pedWindow_lcd) (v\<lparr>pins := setPedestrianGreenState (pins v)\<rparr>))
          \<lparr>pins := digitalWrite PIN_PED_GREEN LOW (digitalWrite PIN_PED_RED HIGH
              (setAllVehicleRed (setPedestrianGreenState (pins v)))),
           pedRequest := False\<rparr> \<and>
      pedRequest ((readButtons_lcd inp ^^ j) (v\<lparr>pins := setPedestrianGreenState (pins v)\<rparr>)) \<and>
      reads (phasePedestrianIfRequested_lcd inp v) = reads v + pedWindow_lcd \<and>
      lastPedBtnState (phasePedestrianIfRequested_lcd inp v) = inp (reads v + pedWindow_lcd - 1) PIN_BTN_PED_REQUEST) \<and>
   (pedRequest v \<and> sameTraffic inp1 inp2 (reads v) pedWindow_lcd \<and>
    inp1 (reads v + pedWindow_lcd - 1) PIN_BTN_PED_REQUEST =
      inp2 (reads v + pedWindow_lcd - 1) PIN_BTN_PED_REQUEST \<longrightarrow>
      phasePedestrianIfRequested_lcd inp1 v = phasePedestrianIfRequested_lcd inp2 v) \<and>
   (pedRequest v \<longrightarrow>
      pedRequest (phaseEwYellow_lcd inp (phaseEwGreen_lcd inp (phasePedestrianIfRequested_lcd inp v))) =
        (\<exists>k<ewWindow_lcd (phasePedestrianIfRequested_lcd inp v). pressEdge inp PIN_BTN_PED_REQUEST (reads v + pedWindow_lcd + k)) \<and>
      pedRequest (phaseNsYellow_lcd inp (phaseNsGreen_lcd inp (phasePedestrianIfRequested_lcd inp v))) =
        (\<exists>k<nsWindow_lcd (phasePedestrianIfRequested_lcd inp v). pressEdge inp PIN_BTN_PED_REQUEST (reads v + pedWindow_lcd + k))) \<and>
   (pedRequest v \<and>
    (\<forall>k<ewWindow_lcd (phasePedestrianIfRequested_lcd inp v). \<not> pressEdge inp PIN_BTN_PED_REQUEST (reads v + pedWindow_lcd + k)) \<longrightarrow>
      phasePedestrianIfRequested_lcd inp (phaseEwYellow_lcd inp (phaseEwGreen_lcd inp (phasePedestrianIfRequested_lcd inp v))) =
        phaseEwYellow_lcd inp (phaseEwGreen_lcd inp (phasePedestrianIfRequested_lcd inp v))) \<and>
   (pedRequest v \<and>
    (\<forall>k<nsWindow_lcd (phasePedestrianIfRequested_lcd inp v). \<not> pressEdge inp PIN_BTN_PED_REQUEST (reads v + pedWindow_lcd + k)) \<longrightarrow>
      phasePedestrianIfRequested_lcd inp (phaseNsYellow_lcd inp (phaseNsGreen_lcd inp (phasePedestrianIfRequested_lcd inp v))) =
        phaseNsYellow_lcd inp (phaseNsGreen_lcd inp (phasePedestrianIfRequested_lcd inp v)))"
proof -
  have n: "\<not> pedRequest (phasePedestrianIfRequested inp s)"
    by (simp add: pedRequest_phases)
  have e: "inp (reads s) PIN_BTN_PED_REQUEST = LOW \<and> lastPedBtnState s = HIGH \<longrightarrow>
      pedRequest (readButtons inp s)"
    by (simp add: readButtons_step)
  have d: "pedRequest s \<longrightarrow>
      phasePedestrianIfRequested inp s =
        ((readButtons inp ^^ pedWindow) (s\<lparr>currentPhase := PHASE_PED_GREEN, pins := setPedestrianGreenState (pins s)\<rparr>))
          \<lparr>pins := digitalWrite PIN_PED_GREEN LOW (digitalWrite PIN_PED_RED HIGH
              (setAllVehicleRed (setPedestrianGreenState (pins s)))),
           pedRequest := False\<rparr> \<and>
      pedRequest ((readButtons inp ^^ j) (s\<lparr>currentPhase := PHASE_PED_GREEN, pins := setPedestrianGreenState (pins s)\<rparr>)) \<and>
      reads (phasePedestrianIfRequested inp s) = reads s + pedWindow \<and>
      lastPedBtnState (phasePedestrianIfRequested inp s) = inp (reads s + pedWindow - 1) PIN_BTN_PED_REQUEST"
    by (simp add: pedestrian_phase_as_samples(1) reads_phases lastPed_pedestrian(1) window_eqs
        readButtons_funpow lastSample_eq add.commute)
  have l: "pedRequest s \<and> sameTraffic inp1 inp2 (reads s) pedWindow \<and>
    inp1 (reads s + pedWindow - 1) PIN_BTN_PED_REQUEST =
      inp2 (reads s + pedWindow - 1) PIN_BTN_PED_REQUEST \<longrightarrow>
      phasePedestrianIfRequested inp1 s = phasePedestrianIfRequested inp2 s"
    by (intro impI, elim conjE) (rule pedestrian_phase_lost)
  have q: "pedRequest s \<longrightarrow>
      pedRequest (phaseEwYellow inp (phaseEwGreen inp (phasePedestrianIfRequested inp s))) =
        (\<exists>k<ewWindow (phasePedestrianIfRequested inp s). pressEdge inp PIN_BTN_PED_REQUEST (reads s + pedWindow + k)) \<and>
      pedRequest (phaseNsYellow inp (phaseNsGreen inp (phasePedestrianIfRequested inp s))) =
        (\<exists>k<nsWindow (phasePedestrianIfRequested inp s). pressEdge inp PIN_BTN_PED_REQUEST (reads s + pedWindow + k))"
    by (intro impI conjI) (erule next_latch)+
  have se: "pedRequest s \<and>
    (\<forall>k<ewWindow (phasePedestrianIfRequested inp s). \<not> pressEdge inp PIN_BTN_PED_REQUEST (reads s + pedWindow + k)) \<longrightarrow>
      phasePedestrianIfRequested inp (phaseEwYellow inp (phaseEwGreen inp (phasePedestrianIfRequested inp s))) =
        phaseEwYellow inp (phaseEwGreen inp (phasePedestrianIfRequested inp s))"
    by (intro impI, elim conjE)
      (simp add: next_latch(1) phasePedestrianIfRequested_def [of inp "phaseEwYellow inp x" for x])
  have sn: "pedRequest s \<and>
    (\<forall>k<nsWindow (phasePedestrianIfRequested inp s). \<not> pressEdge inp PIN_BTN_PED_REQUEST (reads s + pedWindow + k)) \<longrightarrow>
      phasePedestrianIfRequested inp (phaseNsYellow inp (phaseNsGreen inp (phasePedestrianIfRequested inp s))) =
        phaseNsYellow inp (phaseNsGreen inp (phasePedestrianIfRequested inp s))"
    by (intro impI, elim conjE)
      (simp add: next_latch(2) phasePedestrianIfRequested_def [of inp "phaseNsYellow inp x" for x])
  have n_lcd: "\<not> pedRequest (phasePedestrianIfRequested_lcd inp v)"
    by (simp add: pedRequest_phases_lcd)
  have e_lcd: "inp (reads v) PIN_BTN_PED_REQUEST = LOW \<and> lastPedBtnState v = HIGH \<longrightarrow>
      pedRequest (readButtons_lcd inp v)"
    by (simp add: readButtons_lcd_step)
  have d_lcd: "pedRequest v \<longrightarrow>
      phasePedestrianIfRequested_lcd inp v =
        ((readButtons_lcd inp ^^ pedWindow_lcd) (v\<lparr>pins := setPedestrianGreenState (pins v)\<rparr>))
          \<lparr>pins := digitalWrite PIN_PED_GREEN LOW (digitalWrite PIN_PED_RED HIGH
              (setAllVehicleRed (setPedestrianGreenState (pins v)))),
           pedRequest := False\<rparr> \<and>
      pedRequest ((readButtons_lcd inp ^^ j) (v\<lparr>pins := setPedestrianGreenState (pins v)\<rparr>)) \<and>
      reads (phasePedestrianIfRequested_lcd inp v) = reads v + pedWindow_lcd \<and>
      lastPedBtnState (phasePedestrianIfRequested_lcd inp v) = inp (reads v + pedWindow_lcd - 1) PIN_BTN_PED_REQUEST"
    by (simp add: pedestrian_phase_as_samples(2) reads_phases_lcd lastPed_pedestrian(2)
        window_eqs readButtons_lcd_funpow lastSample_eq add.commute)
  have l_lcd: "pedRequest v \<and> sameTraffic inp1 inp2 (reads v) pedWindow_lcd \<and>
    inp1 (reads v + pedWindow_lcd - 1) PIN_BTN_PED_REQUEST =
      inp2 (reads v + pedWindow_lcd - 1) PIN_BTN_PED_REQUEST \<longrightarrow>
      phasePedestrianIfRequested_lcd inp1 v = phasePedestrianIfRequested_lcd inp2 v"
    by (intro impI, elim conjE) (rule pedestrian_phase_lost_lcd)
  have q_lcd: "pedRequest v \<longrightarrow>
      pedRequest (phaseEwYellow_lcd inp (phaseEwGreen_lcd inp (phasePedestrianIfRequested_lcd inp v))) =
        (\<exists>k<ewWindow_lcd (phasePedestrianIfRequested_lcd inp v). pressEdge inp PIN_BTN_PED_REQUEST (reads v + pedWindow_lcd + k)) \<and>
      pedRequest (phaseNsYellow_lcd inp (phaseNsGreen_lcd inp (phasePedestrianIfRequested_lcd inp v))) =
        (\<exists>k<nsWindow_lcd (phasePedestrianIfRequested_lcd inp v). pressEdge inp PIN_BTN_PED_REQUEST (reads v + pedWindow_lcd + k))"
    by (intro impI conjI) (erule next_latch_lcd)+
  have se_lcd: "pedRequest v \<and>
    (\<forall>k<ewWindow_lcd (phasePedestrianIfRequested_lcd inp v). \<not> pressEdge inp PIN_BTN_PED_REQUEST (reads v + pedWindow_lcd + k)) \<longrightarrow>
      phasePedestrianIfRequested_lcd inp (phaseEwYellow_lcd inp (phaseEwGreen_lcd inp (phasePedestrianIfRequested_lcd inp v))) =
        phaseEwYellow_lcd inp (phaseEwGreen_lcd inp (phasePedestrianIfRequested_lcd inp v))"
    by (intro impI, elim conjE)
      (simp add: next_latch_lcd(1)
        phasePedestrianIfRequested_lcd_def [of inp "phaseEwYellow_lcd inp x" for x])
  have sn_lcd: "pedRequest v \<and>
    (\<forall>k<nsWindow_lcd (phasePedestrianIfRequested_lcd inp v). \<not> pressEdge inp PIN_BTN_PED_REQUEST (reads v + pedWindow_lcd + k)) \<longrightarrow>
      phasePedestrianIfRequested_lcd inp (phaseNsYellow_lcd inp (phaseNsGreen_lcd inp (phasePedestrianIfRequested_lcd inp v))) =
        phaseNsYellow_lcd inp (phaseNsGreen_lcd inp (phasePedestrianIfRequested_lcd inp v))"
    by (intro impI, elim conjE)
      (simp add: next_latch_lcd(2)
        phasePedestrianIfRequested_lcd_def [of inp "phaseNsYellow_lcd inp x" for x])
  from n e d l q se sn n_lcd e_lcd d_lcd l_lcd q_lcd se_lcd sn_lcd show ?thesis
    by (intro conjI)
qed

theorem press_during_pedestrian_phase_lost_witness:
  "pressEdge (heldFromTo PIN_BTN_PED_REQUEST 3 450) PIN_BTN_PED_REQUEST 3 \<and>
   \<not> pedRequest (phasePedestrianIfRequested (heldFromTo PIN_BTN_PED_REQUEST 3 450) (initial\<lparr>pedRequest := True\<rparr>)) \<and>
   lastPedBtnState (phasePedestrianIfRequested (heldFromTo PIN_BTN_PED_REQUEST 3 450) (initial\<lparr>pedRequest := True\<rparr>)) = LOW \<and>
   phasePedestrianIfRequested (heldFromTo PIN_BTN_PED_REQUEST 3 450) (phaseEwYellow (heldFromTo PIN_BTN_PED_REQUEST 3 450) (phaseEwGreen (heldFromTo PIN_BTN_PED_REQUEST 3 450) (phasePedestrianIfRequested (heldFromTo PIN_BTN_PED_REQUEST 3 450) (initial\<lparr>pedRequest := True\<rparr>)))) =
        phaseEwYellow (heldFromTo PIN_BTN_PED_REQUEST 3 450) (phaseEwGreen (heldFromTo PIN_BTN_PED_REQUEST 3 450) (phasePedestrianIfRequested (heldFromTo PIN_BTN_PED_REQUEST 3 450) (initial\<lparr>pedRequest := True\<rparr>))) \<and>
   phasePedestrianIfRequested (heldFromTo PIN_BTN_PED_REQUEST 3 450) (phaseNsYellow (heldFromTo PIN_BTN_PED_REQUEST 3 450) (phaseNsGreen (heldFromTo PIN_BTN_PED_REQUEST 3 450) (phasePedestrianIfRequested (heldFromTo PIN_BTN_PED_REQUEST 3 450) (initial\<lparr>pedRequest := True\<rparr>)))) =
        phaseNsYellow (heldFromTo PIN_BTN_PED_REQUEST 3 450) (phaseNsGreen (heldFromTo PIN_BTN_PED_REQUEST 3 450) (phasePedestrianIfRequested (heldFromTo PIN_BTN_PED_REQUEST 3 450) (initial\<lparr>pedRequest := True\<rparr>))) \<and>
   phasePedestrianIfRequested (heldAt [(PIN_BTN_PED_REQUEST, 3)]) (initial\<lparr>pedRequest := True\<rparr>) = phasePedestrianIfRequested (heldAt []) (initial\<lparr>pedRequest := True\<rparr>) \<and>
   pedRequest (readButtons (heldFromTo PIN_BTN_PED_REQUEST 3 450) (initial\<lparr>reads := 3\<rparr>)) \<and>
   \<not> pedRequest (phasePedestrianIfRequested_lcd (heldFromTo PIN_BTN_PED_REQUEST 3 12) (initial_lcd\<lparr>pedRequest := True\<rparr>)) \<and>
   lastPedBtnState (phasePedestrianIfRequested_lcd (heldFromTo PIN_BTN_PED_REQUEST 3 12) (initial_lcd\<lparr>pedRequest := True\<rparr>)) = LOW \<and>
   phasePedestrianIfRequested_lcd (heldFromTo PIN_BTN_PED_REQUEST 3 12) (phaseEwYellow_lcd (heldFromTo PIN_BTN_PED_REQUEST 3 12) (phaseEwGreen_lcd (heldFromTo PIN_BTN_PED_REQUEST 3 12) (phasePedestrianIfRequested_lcd (heldFromTo PIN_BTN_PED_REQUEST 3 12) (initial_lcd\<lparr>pedRequest := True\<rparr>)))) =
        phaseEwYellow_lcd (heldFromTo PIN_BTN_PED_REQUEST 3 12) (phaseEwGreen_lcd (heldFromTo PIN_BTN_PED_REQUEST 3 12) (phasePedestrianIfRequested_lcd (heldFromTo PIN_BTN_PED_REQUEST 3 12) (initial_lcd\<lparr>pedRequest := True\<rparr>))) \<and>
   phasePedestrianIfRequested_lcd (heldFromTo PIN_BTN_PED_REQUEST 3 12) (phaseNsYellow_lcd (heldFromTo PIN_BTN_PED_REQUEST 3 12) (phaseNsGreen_lcd (heldFromTo PIN_BTN_PED_REQUEST 3 12) (phasePedestrianIfRequested_lcd (heldFromTo PIN_BTN_PED_REQUEST 3 12) (initial_lcd\<lparr>pedRequest := True\<rparr>)))) =
        phaseNsYellow_lcd (heldFromTo PIN_BTN_PED_REQUEST 3 12) (phaseNsGreen_lcd (heldFromTo PIN_BTN_PED_REQUEST 3 12) (phasePedestrianIfRequested_lcd (heldFromTo PIN_BTN_PED_REQUEST 3 12) (initial_lcd\<lparr>pedRequest := True\<rparr>))) \<and>
   phasePedestrianIfRequested_lcd (heldAt [(PIN_BTN_PED_REQUEST, 3)]) (initial_lcd\<lparr>pedRequest := True\<rparr>) = phasePedestrianIfRequested_lcd (heldAt []) (initial_lcd\<lparr>pedRequest := True\<rparr>) \<and>
   pedRequest (readButtons_lcd (heldFromTo PIN_BTN_PED_REQUEST 3 12) (initial_lcd\<lparr>reads := 3\<rparr>))"
proof -
  note T1 = press_during_pedestrian_phase_lost
    [where inp = "heldFromTo PIN_BTN_PED_REQUEST 3 450" and s = "initial\<lparr>pedRequest := True\<rparr>"
       and v = "initial_lcd\<lparr>pedRequest := True\<rparr>" and j = 4
       and ?inp1.0 = "heldAt [(PIN_BTN_PED_REQUEST, 3)]" and ?inp2.0 = "heldAt []"]
  note T2 = press_during_pedestrian_phase_lost
    [where inp = "heldFromTo PIN_BTN_PED_REQUEST 3 12" and s = "initial\<lparr>pedRequest := True\<rparr>"
       and v = "initial_lcd\<lparr>pedRequest := True\<rparr>" and j = 4
       and ?inp1.0 = "heldAt [(PIN_BTN_PED_REQUEST, 3)]" and ?inp2.0 = "heldAt []"]
  note U1 = press_during_pedestrian_phase_lost
    [where inp = "heldFromTo PIN_BTN_PED_REQUEST 3 450" and s = "initial\<lparr>reads := 3\<rparr>"
       and v = "initial_lcd\<lparr>reads := 3\<rparr>" and j = 4
       and ?inp1.0 = "heldAt []" and ?inp2.0 = "heldAt []"]
  note U2 = press_during_pedestrian_phase_lost
    [where inp = "heldFromTo PIN_BTN_PED_REQUEST 3 12" and s = "initial\<lparr>reads := 3\<rparr>"
       and v = "initial_lcd\<lparr>reads := 3\<rparr>" and j = 4
       and ?inp1.0 = "heldAt []" and ?inp2.0 = "heldAt []"]
  have i: "pedRequest (initial\<lparr>pedRequest := True\<rparr>)" "reads (initial\<lparr>pedRequest := True\<rparr>) = 0"
    "pedRequest (initial_lcd\<lparr>pedRequest := True\<rparr>)"
    "reads (initial_lcd\<lparr>pedRequest := True\<rparr>) = 0"
    "reads (initial\<lparr>reads := 3\<rparr>) = 3" "lastPedBtnState (initial\<lparr>reads := 3\<rparr>) = HIGH"
    "reads (initial_lcd\<lparr>reads := 3\<rparr>) = 3" "lastPedBtnState (initial_lcd\<lparr>reads := 3\<rparr>) = HIGH"
    by (simp_all add: initial_def initial_lcd_def)
  have w0: "pressEdge (heldFromTo PIN_BTN_PED_REQUEST 3 450) PIN_BTN_PED_REQUEST 3"
    by (simp add: pressEdge_def heldFromTo_def)
  have m1: "\<not> pedRequest (phasePedestrianIfRequested (heldFromTo PIN_BTN_PED_REQUEST 3 450) (initial\<lparr>pedRequest := True\<rparr>))"
    using T1 by (elim conjE)
  have "pedRequest (initial\<lparr>pedRequest := True\<rparr>) \<longrightarrow>
      phasePedestrianIfRequested (heldFromTo PIN_BTN_PED_REQUEST 3 450) (initial\<lparr>pedRequest := True\<rparr>) =
        ((readButtons (heldFromTo PIN_BTN_PED_REQUEST 3 450) ^^ pedWindow) ((initial\<lparr>pedRequest := True\<rparr>)\<lparr>currentPhase := PHASE_PED_GREEN, pins := setPedestrianGreenState (pins (initial\<lparr>pedRequest := True\<rparr>))\<rparr>))
          \<lparr>pins := digitalWrite PIN_PED_GREEN LOW (digitalWrite PIN_PED_RED HIGH
              (setAllVehicleRed (setPedestrianGreenState (pins (initial\<lparr>pedRequest := True\<rparr>))))),
           pedRequest := False\<rparr> \<and>
      pedRequest ((readButtons (heldFromTo PIN_BTN_PED_REQUEST 3 450) ^^ 4) ((initial\<lparr>pedRequest := True\<rparr>)\<lparr>currentPhase := PHASE_PED_GREEN, pins := setPedestrianGreenState (pins (initial\<lparr>pedRequest := True\<rparr>))\<rparr>)) \<and>
      reads (phasePedestrianIfRequested (heldFromTo PIN_BTN_PED_REQUEST 3 450) (initial\<lparr>pedRequest := True\<rparr>)) = reads (initial\<lparr>pedRequest := True\<rparr>) + pedWindow \<and>
      lastPedBtnState (phasePedestrianIfRequested (heldFromTo PIN_BTN_PED_REQUEST 3 450) (initial\<lparr>pedRequest := True\<rparr>)) = (heldFromTo PIN_BTN_PED_REQUEST 3 450) (reads (initial\<lparr>pedRequest := True\<rparr>) + pedWindow - 1) PIN_BTN_PED_REQUEST"
    using T1 by (elim conjE)
  from this i(1) have "phasePedestrianIfRequested (heldFromTo PIN_BTN_PED_REQUEST 3 450) (initial\<lparr>pedRequest := True\<rparr>) =
        ((readButtons (heldFromTo PIN_BTN_PED_REQUEST 3 450) ^^ pedWindow) ((initial\<lparr>pedRequest := True\<rparr>)\<lparr>currentPhase := PHASE_PED_GREEN, pins := setPedestrianGreenState (pins (initial\<lparr>pedRequest := True\<rparr>))\<rparr>))
          \<lparr>pins := digitalWrite PIN_PED_GREEN LOW (digitalWrite PIN_PED_RED HIGH
              (setAllVehicleRed (setPedestrianGreenState (pins (initial\<lparr>pedRequest := True\<rparr>))))),
           pedRequest := False\<rparr> \<and>
      pedRequest ((readButtons (heldFromTo PIN_BTN_PED_REQUEST 3 450) ^^ 4) ((initial\<lparr>pedRequest := True\<rparr>)\<lparr>currentPhase := PHASE_PED_GREEN, pins := setPedestrianGreenState (pins (initial\<lparr>pedRequest := True\<rparr>))\<rparr>)) \<and>
      reads (phasePedestrianIfRequested (heldFromTo PIN_BTN_PED_REQUEST 3 450) (initial\<lparr>pedRequest := True\<rparr>)) = reads (initial\<lparr>pedRequest := True\<rparr>) + pedWindow \<and>
      lastPedBtnState (phasePedestrianIfRequested (heldFromTo PIN_BTN_PED_REQUEST 3 450) (initial\<lparr>pedRequest := True\<rparr>)) = (heldFromTo PIN_BTN_PED_REQUEST 3 450) (reads (initial\<lparr>pedRequest := True\<rparr>) + pedWindow - 1) PIN_BTN_PED_REQUEST"
    by (rule mp)
  then have "lastPedBtnState (phasePedestrianIfRequested (heldFromTo PIN_BTN_PED_REQUEST 3 450) (initial\<lparr>pedRequest := True\<rparr>)) = (heldFromTo PIN_BTN_PED_REQUEST 3 450) (reads (initial\<lparr>pedRequest := True\<rparr>) + pedWindow - 1) PIN_BTN_PED_REQUEST"
    by (elim conjE)
  then have m2: "lastPedBtnState (phasePedestrianIfRequested (heldFromTo PIN_BTN_PED_REQUEST 3 450) (initial\<lparr>pedRequest := True\<rparr>)) = LOW"
    by (simp add: i heldFromTo_def window_eqs)
  have "pedRequest (initial\<lparr>pedRequest := True\<rparr>) \<and>
    (\<forall>k<ewWindow (phasePedestrianIfRequested (heldFromTo PIN_BTN_PED_REQUEST 3 450) (initial\<lparr>pedRequest := True\<rparr>)). \<not> pressEdge (heldFromTo PIN_BTN_PED_REQUEST 3 450) PIN_BTN_PED_REQUEST (reads (initial\<lparr>pedRequest := True\<rparr>) + pedWindow + k)) \<longrightarrow>
      phasePedestrianIfRequested (heldFromTo PIN_BTN_PED_REQUEST 3 450) (phaseEwYellow (heldFromTo PIN_BTN_PED_REQUEST 3 450) (phaseEwGreen (heldFromTo PIN_BTN_PED_REQUEST 3 450) (phasePedestrianIfRequested (heldFromTo PIN_BTN_PED_REQUEST 3 450) (initial\<lparr>pedRequest := True\<rparr>)))) =
        phaseEwYellow (heldFromTo PIN_BTN_PED_REQUEST 3 450) (phaseEwGreen (heldFromTo PIN_BTN_PED_REQUEST 3 450) (phasePedestrianIfRequested (heldFromTo PIN_BTN_PED_REQUEST 3 450) (initial\<lparr>pedRequest := True\<rparr>)))"
    using T1 by (elim conjE)
  then have m3: "phasePedestrianIfRequested (heldFromTo PIN_BTN_PED_REQUEST 3 450) (phaseEwYellow (heldFromTo PIN_BTN_PED_REQUEST 3 450) (phaseEwGreen (heldFromTo PIN_BTN_PED_REQUEST 3 450) (phasePedestrianIfRequested (heldFromTo PIN_BTN_PED_REQUEST 3 450) (initial\<lparr>pedRequest := True\<rparr>)))) =
        phaseEwYellow (heldFromTo PIN_BTN_PED_REQUEST 3 450) (phaseEwGreen (heldFromTo PIN_BTN_PED_REQUEST 3 450) (phasePedestrianIfRequested (heldFromTo PIN_BTN_PED_REQUEST 3 450) (initial\<lparr>pedRequest := True\<rparr>)))"
    by (simp add: i pressEdge_def heldFromTo_def window_eqs)
  have "pedRequest (initial\<lparr>pedRequest := True\<rparr>) \<and>
    (\<forall>k<nsWindow (phasePedestrianIfRequested (heldFromTo PIN_BTN_PED_REQUEST 3 450) (initial\<lparr>pedRequest := True\<rparr>)). \<not> pressEdge (heldFromTo PIN_BTN_PED_REQUEST 3 450) PIN_BTN_PED_REQUEST (reads (initial\<lparr>pedRequest := True\<rparr>) + pedWindow + k)) \<longrightarrow>
      phasePedestrianIfRequested (heldFromTo PIN_BTN_PED_REQUEST 3 450) (phaseNsYellow (heldFromTo PIN_BTN_PED_REQUEST 3 450) (phaseNsGreen (heldFromTo PIN_BTN_PED_REQUEST 3 450) (phasePedestrianIfRequested (heldFromTo PIN_BTN_PED_REQUEST 3 450) (initial\<lparr>pedRequest := True\<rparr>)))) =
        phaseNsYellow (heldFromTo PIN_BTN_PED_REQUEST 3 450) (phaseNsGreen (heldFromTo PIN_BTN_PED_REQUEST 3 450) (phasePedestrianIfRequested (heldFromTo PIN_BTN_PED_REQUEST 3 450) (initial\<lparr>pedRequest := True\<rparr>)))"
    using T1 by (elim conjE)
  then have m4: "phasePedestrianIfRequested (heldFromTo PIN_BTN_PED_REQUEST 3 450) (phaseNsYellow (heldFromTo PIN_BTN_PED_REQUEST 3 450) (phaseNsGreen (heldFromTo PIN_BTN_PED_REQUEST 3 450) (phasePedestrianIfRequested (heldFromTo PIN_BTN_PED_REQUEST 3 450) (initial\<lparr>pedRequest := True\<rparr>)))) =
        phaseNsYellow (heldFromTo PIN_BTN_PED_REQUEST 3 450) (phaseNsGreen (heldFromTo PIN_BTN_PED_REQUEST 3 450) (phasePedestrianIfRequested (heldFromTo PIN_BTN_PED_REQUEST 3 450) (initial\<lparr>pedRequest := True\<rparr>)))"
    by (simp add: i pressEdge_def heldFromTo_def window_eqs)
  have "pedRequest (initial\<lparr>pedRequest := True\<rparr>) \<and> sameTraffic (heldAt [(PIN_BTN_PED_REQUEST, 3)]) (heldAt []) (reads (initial\<lparr>pedRequest := True\<rparr>)) pedWindow \<and>
    (heldAt [(PIN_BTN_PED_REQUEST, 3)]) (reads (initial\<lparr>pedRequest := True\<rparr>) + pedWindow - 1) PIN_BTN_PED_REQUEST =
      (heldAt []) (reads (initial\<lparr>pedRequest := True\<rparr>) + pedWindow - 1) PIN_BTN_PED_REQUEST \<longrightarrow>
      phasePedestrianIfRequested (heldAt [(PIN_BTN_PED_REQUEST, 3)]) (initial\<lparr>pedRequest := True\<rparr>) = phasePedestrianIfRequested (heldAt []) (initial\<lparr>pedRequest := True\<rparr>)"
    using T1 by (elim conjE)
  then have m5: "phasePedestrianIfRequested (heldAt [(PIN_BTN_PED_REQUEST, 3)]) (initial\<lparr>pedRequest := True\<rparr>) = phasePedestrianIfRequested (heldAt []) (initial\<lparr>pedRequest := True\<rparr>)"
    by (simp add: i sameTraffic_def heldAt_def window_eqs pin_defs)
  have "(heldFromTo PIN_BTN_PED_REQUEST 3 450) (reads (initial\<lparr>reads := 3\<rparr>)) PIN_BTN_PED_REQUEST = LOW \<and> lastPedBtnState (initial\<lparr>reads := 3\<rparr>) = HIGH \<longrightarrow>
      pedRequest (readButtons (heldFromTo PIN_BTN_PED_REQUEST 3 450) (initial\<lparr>reads := 3\<rparr>))"
    using U1 by (elim conjE)
  then have m6: "pedRequest (readButtons (heldFromTo PIN_BTN_PED_REQUEST 3 450) (initial\<lparr>reads := 3\<rparr>))"
    by (simp add: i heldFromTo_def)
  have l1: "\<not> pedRequest (phasePedestrianIfRequested_lcd (heldFromTo PIN_BTN_PED_REQUEST 3 12) (initial_lcd\<lparr>pedRequest := True\<rparr>))"
    using T2 by (elim conjE)
  have "pedRequest (initial_lcd\<lparr>pedRequest := True\<rparr>) \<longrightarrow>
      phasePedestrianIfRequested_lcd (heldFromTo PIN_BTN_PED_REQUEST 3 12) (initial_lcd\<lparr>pedRequest := True\<rparr>) =
        ((readButtons_lcd (heldFromTo PIN_BTN_PED_REQUEST 3 12) ^^ pedWindow_lcd) ((initial_lcd\<lparr>pedRequest := True\<rparr>)\<lparr>pins := setPedestrianGreenState (pins (initial_lcd\<lparr>pedRequest := True\<rparr>))\<rparr>))
          \<lparr>pins := digitalWrite PIN_PED_GREEN LOW (digitalWrite PIN_PED_RED HIGH
              (setAllVehicleRed (setPedestrianGreenState (pins (initial_lcd\<lparr>pedRequest := True\<rparr>))))),
           pedRequest := False\<rparr> \<and>
      pedRequest ((readButtons_lcd (heldFromTo PIN_BTN_PED_REQUEST 3 12) ^^ 4) ((initial_lcd\<lparr>pedRequest := True\<rparr>)\<lparr>pins := setPedestrianGreenState (pins (initial_lcd\<lparr>pedRequest := True\<rparr>))\<rparr>)) \<and>
      reads (phasePedestrianIfRequested_lcd (heldFromTo PIN_BTN_PED_REQUEST 3 12) (initial_lcd\<lparr>pedRequest := True\<rparr>)) = reads (initial_lcd\<lparr>pedRequest := True\<rparr>) + pedWindow_lcd \<and>
      lastPedBtnState (phasePedestrianIfRequested_lcd (heldFromTo PIN_BTN_PED_REQUEST 3 12) (initial_lcd\<lparr>pedRequest := True\<rparr>)) = (heldFromTo PIN_BTN_PED_REQUEST 3 12) (reads (initial_lcd\<lparr>pedRequest := True\<rparr>) + pedWindow_lcd - 1) PIN_BTN_PED_REQUEST"
    using T2 by (elim conjE)
  from this i(3) have "phasePedestrianIfRequested_lcd (heldFromTo PIN_BTN_PED_REQUEST 3 12) (initial_lcd\<lparr>pedRequest := True\<rparr>) =
        ((readButtons_lcd (heldFromTo PIN_BTN_PED_REQUEST 3 12) ^^ pedWindow_lcd) ((initial_lcd\<lparr>pedRequest := True\<rparr>)\<lparr>pins := setPedestrianGreenState (pins (initial_lcd\<lparr>pedRequest := True\<rparr>))\<rparr>))
          \<lparr>pins := digitalWrite PIN_PED_GREEN LOW (digitalWrite PIN_PED_RED HIGH
              (setAllVehicleRed (setPedestrianGreenState (pins (initial_lcd\<lparr>pedRequest := True\<rparr>))))),
           pedRequest := False\<rparr> \<and>
      pedRequest ((readButtons_lcd (heldFromTo PIN_BTN_PED_REQUEST 3 12) ^^ 4) ((initial_lcd\<lparr>pedRequest := True\<rparr>)\<lparr>pins := setPedestrianGreenState (pins (initial_lcd\<lparr>pedRequest := True\<rparr>))\<rparr>)) \<and>
      reads (phasePedestrianIfRequested_lcd (heldFromTo PIN_BTN_PED_REQUEST 3 12) (initial_lcd\<lparr>pedRequest := True\<rparr>)) = reads (initial_lcd\<lparr>pedRequest := True\<rparr>) + pedWindow_lcd \<and>
      lastPedBtnState (phasePedestrianIfRequested_lcd (heldFromTo PIN_BTN_PED_REQUEST 3 12) (initial_lcd\<lparr>pedRequest := True\<rparr>)) = (heldFromTo PIN_BTN_PED_REQUEST 3 12) (reads (initial_lcd\<lparr>pedRequest := True\<rparr>) + pedWindow_lcd - 1) PIN_BTN_PED_REQUEST"
    by (rule mp)
  then have "lastPedBtnState (phasePedestrianIfRequested_lcd (heldFromTo PIN_BTN_PED_REQUEST 3 12) (initial_lcd\<lparr>pedRequest := True\<rparr>)) = (heldFromTo PIN_BTN_PED_REQUEST 3 12) (reads (initial_lcd\<lparr>pedRequest := True\<rparr>) + pedWindow_lcd - 1) PIN_BTN_PED_REQUEST"
    by (elim conjE)
  then have l2: "lastPedBtnState (phasePedestrianIfRequested_lcd (heldFromTo PIN_BTN_PED_REQUEST 3 12) (initial_lcd\<lparr>pedRequest := True\<rparr>)) = LOW"
    by (simp add: i heldFromTo_def window_eqs)
  have "pedRequest (initial_lcd\<lparr>pedRequest := True\<rparr>) \<and>
    (\<forall>k<ewWindow_lcd (phasePedestrianIfRequested_lcd (heldFromTo PIN_BTN_PED_REQUEST 3 12) (initial_lcd\<lparr>pedRequest := True\<rparr>)). \<not> pressEdge (heldFromTo PIN_BTN_PED_REQUEST 3 12) PIN_BTN_PED_REQUEST (reads (initial_lcd\<lparr>pedRequest := True\<rparr>) + pedWindow_lcd + k)) \<longrightarrow>
      phasePedestrianIfRequested_lcd (heldFromTo PIN_BTN_PED_REQUEST 3 12) (phaseEwYellow_lcd (heldFromTo PIN_BTN_PED_REQUEST 3 12) (phaseEwGreen_lcd (heldFromTo PIN_BTN_PED_REQUEST 3 12) (phasePedestrianIfRequested_lcd (heldFromTo PIN_BTN_PED_REQUEST 3 12) (initial_lcd\<lparr>pedRequest := True\<rparr>)))) =
        phaseEwYellow_lcd (heldFromTo PIN_BTN_PED_REQUEST 3 12) (phaseEwGreen_lcd (heldFromTo PIN_BTN_PED_REQUEST 3 12) (phasePedestrianIfRequested_lcd (heldFromTo PIN_BTN_PED_REQUEST 3 12) (initial_lcd\<lparr>pedRequest := True\<rparr>)))"
    using T2 by (elim conjE)
  then have l3: "phasePedestrianIfRequested_lcd (heldFromTo PIN_BTN_PED_REQUEST 3 12) (phaseEwYellow_lcd (heldFromTo PIN_BTN_PED_REQUEST 3 12) (phaseEwGreen_lcd (heldFromTo PIN_BTN_PED_REQUEST 3 12) (phasePedestrianIfRequested_lcd (heldFromTo PIN_BTN_PED_REQUEST 3 12) (initial_lcd\<lparr>pedRequest := True\<rparr>)))) =
        phaseEwYellow_lcd (heldFromTo PIN_BTN_PED_REQUEST 3 12) (phaseEwGreen_lcd (heldFromTo PIN_BTN_PED_REQUEST 3 12) (phasePedestrianIfRequested_lcd (heldFromTo PIN_BTN_PED_REQUEST 3 12) (initial_lcd\<lparr>pedRequest := True\<rparr>)))"
    by (simp add: i pressEdge_def heldFromTo_def window_eqs)
  have "pedRequest (initial_lcd\<lparr>pedRequest := True\<rparr>) \<and>
    (\<forall>k<nsWindow_lcd (phasePedestrianIfRequested_lcd (heldFromTo PIN_BTN_PED_REQUEST 3 12) (initial_lcd\<lparr>pedRequest := True\<rparr>)). \<not> pressEdge (heldFromTo PIN_BTN_PED_REQUEST 3 12) PIN_BTN_PED_REQUEST (reads (initial_lcd\<lparr>pedRequest := True\<rparr>) + pedWindow_lcd + k)) \<longrightarrow>
      phasePedestrianIfRequested_lcd (heldFromTo PIN_BTN_PED_REQUEST 3 12) (phaseNsYellow_lcd (heldFromTo PIN_BTN_PED_REQUEST 3 12) (phaseNsGreen_lcd (heldFromTo PIN_BTN_PED_REQUEST 3 12) (phasePedestrianIfRequested_lcd (heldFromTo PIN_BTN_PED_REQUEST 3 12) (initial_lcd\<lparr>pedRequest := True\<rparr>)))) =
        phaseNsYellow_lcd (heldFromTo PIN_BTN_PED_REQUEST 3 12) (phaseNsGreen_lcd (heldFromTo PIN_BTN_PED_REQUEST 3 12) (phasePedestrianIfRequested_lcd (heldFromTo PIN_BTN_PED_REQUEST 3 12) (initial_lcd\<lparr>pedRequest := True\<rparr>)))"
    using T2 by (elim conjE)
  then have l4: "phasePedestrianIfRequested_lcd (heldFromTo PIN_BTN_PED_REQUEST 3 12) (phaseNsYellow_lcd (heldFromTo PIN_BTN_PED_REQUEST 3 12) (phaseNsGreen_lcd (heldFromTo PIN_BTN_PED_REQUEST 3 12) (phasePedestrianIfRequested_lcd (heldFromTo PIN_BTN_PED_REQUEST 3 12) (initial_lcd\<lparr>pedRequest := True\<rparr>)))) =
        phaseNsYellow_lcd (heldFromTo PIN_BTN_PED_REQUEST 3 12) (phaseNsGreen_lcd (heldFromTo PIN_BTN_PED_REQUEST 3 12) (phasePedestrianIfRequested_lcd (heldFromTo PIN_BTN_PED_REQUEST 3 12) (initial_lcd\<lparr>pedRequest := True\<rparr>)))"
    by (simp add: i pressEdge_def heldFromTo_def window_eqs)
  have "pedRequest (initial_lcd\<lparr>pedRequest := True\<rparr>) \<and> sameTraffic (heldAt [(PIN_BTN_PED_REQUEST, 3)]) (heldAt []) (reads (initial_lcd\<lparr>pedRequest := True\<rparr>)) pedWindow_lcd \<and>
    (heldAt [(PIN_BTN_PED_REQUEST, 3)]) (reads (initial_lcd\<lparr>pedRequest := True\<rparr>) + pedWindow_lcd - 1) PIN_BTN_PED_REQUEST =
      (heldAt []) (reads (initial_lcd\<lparr>pedRequest := True\<rparr>) + pedWindow_lcd - 1) PIN_BTN_PED_REQUEST \<longrightarrow>
      phasePedestrianIfRequested_lcd (heldAt [(PIN_BTN_PED_REQUEST, 3)]) (initial_lcd\<lparr>pedRequest := True\<rparr>) = phasePedestrianIfRequested_lcd (heldAt []) (initial_lcd\<lparr>pedRequest := True\<rparr>)"
    using T2 by (elim conjE)
  then have l5: "phasePedestrianIfRequested_lcd (heldAt [(PIN_BTN_PED_REQUEST, 3)]) (initial_lcd\<lparr>pedRequest := True\<rparr>) = phasePedestrianIfRequested_lcd (heldAt []) (initial_lcd\<lparr>pedRequest := True\<rparr>)"
    by (simp add: i sameTraffic_def heldAt_def window_eqs pin_defs)
  have "(heldFromTo PIN_BTN_PED_REQUEST 3 12) (reads (initial_lcd\<lparr>reads := 3\<rparr>)) PIN_BTN_PED_REQUEST = LOW \<and> lastPedBtnState (initial_lcd\<lparr>reads := 3\<rparr>) = HIGH \<longrightarrow>
      pedRequest (readButtons_lcd (heldFromTo PIN_BTN_PED_REQUEST 3 12) (initial_lcd\<lparr>reads := 3\<rparr>))"
    using U2 by (elim conjE)
  then have l6: "pedRequest (readButtons_lcd (heldFromTo PIN_BTN_PED_REQUEST 3 12) (initial_lcd\<lparr>reads := 3\<rparr>))"
    by (simp add: i heldFromTo_def)
  from w0 m1 m2 m3 m4 m5 m6 l1 l2 l3 l4 l5 l6 show ?thesis
    by (intro conjI)
qed

section \<open>The write sequence of a phase transition\<close>

lemma newWrites_set:
  "newWrites setAllVehicleRed out =
     [(PIN_NS_RED, HIGH), (PIN_NS_YELLOW, LOW), (PIN_NS_GREEN, LOW),
      (PIN_EW_RED, HIGH), (PIN_EW_YELLOW, LOW), (PIN_EW_GREEN, LOW)]"
  "newWrites setNsGreenState out =
     [(PIN_NS_RED, HIGH), (PIN_NS_YELLOW, LOW), (PIN_NS_GREEN, LOW),
      (PIN_EW_RED, HIGH), (PIN_EW_YELLOW, LOW), (PIN_EW_GREEN, LOW),
      (PIN_NS_RED, LOW), (PIN_NS_GREEN, HIGH)]"
  "newWrites setNsYellowState out =
     [(PIN_NS_RED, HIGH), (PIN_NS_YELLOW, LOW), (PIN_NS_GREEN, LOW),
      (PIN_EW_RED, HIGH), (PIN_EW_YELLOW, LOW), (PIN_EW_GREEN, LOW),
      (PIN_NS_RED, LOW), (PIN_NS_YELLOW, HIGH)]"
  "newWrites setEwGreenState out =
     [(PIN_NS_RED, HIGH), (PIN_NS_YELLOW, LOW), (PIN_NS_GREEN, LOW),
      (PIN_EW_RED, HIGH), (PIN_EW_YELLOW, LOW), (PIN_EW_GREEN, LOW),
      (PIN_EW_RED, LOW), (PIN_EW_GREEN, HIGH)]"
  "newWrites setEwYellowState out =
     [(PIN_NS_RED, HIGH), (PIN_NS_YELLOW, LOW), (PIN_NS_GREEN, LOW),
      (PIN_EW_RED, HIGH), (PIN_EW_YELLOW, LOW), (PIN_EW_GREEN, LOW),
      (PIN_EW_RED, LOW), (PIN_EW_YELLOW, HIGH)]"
  "newWrites setPedestrianGreenState out =
     [(PIN_NS_RED, HIGH), (PIN_NS_YELLOW, LOW), (PIN_NS_GREEN, LOW),
      (PIN_EW_RED, HIGH), (PIN_EW_YELLOW, LOW), (PIN_EW_GREEN, LOW),
      (PIN_PED_RED, LOW), (PIN_PED_GREEN, HIGH)]"
  by (simp_all add: newWrites_def set_defs)

lemma goLamps_sum:
  "goLamps lv =
     of_bool (lv PIN_NS_YELLOW) + of_bool (lv PIN_NS_GREEN) +
     of_bool (lv PIN_EW_YELLOW) + of_bool (lv PIN_EW_GREEN)"
  by (simp add: goLamps_def)

lemma goLamps_intermediate:
  assumes "goLamps (level out) \<le> 1"
  shows "list_all (\<lambda>lv. goLamps lv \<le> 1) (intermediate setAllVehicleRed out)"
    and "list_all (\<lambda>lv. goLamps lv \<le> 1) (intermediate setNsGreenState out)"
    and "list_all (\<lambda>lv. goLamps lv \<le> 1) (intermediate setNsYellowState out)"
    and "list_all (\<lambda>lv. goLamps lv \<le> 1) (intermediate setEwGreenState out)"
    and "list_all (\<lambda>lv. goLamps lv \<le> 1) (intermediate setEwYellowState out)"
    and "list_all (\<lambda>lv. goLamps lv \<le> 1) (intermediate setPedestrianGreenState out)"
  using assms
  by (simp_all add: intermediate_def newWrites_set goLamps_sum pin_defs)

lemma all_red_after_baseline:
  "nsShowsRed (intermediate setNsGreenState out ! 5) \<and>
   ewShowsRed (intermediate setNsGreenState out ! 5)"
  "nsShowsRed (intermediate setNsYellowState out ! 5) \<and>
   ewShowsRed (intermediate setNsYellowState out ! 5)"
  "nsShowsRed (intermediate setEwGreenState out ! 5) \<and>
   ewShowsRed (intermediate setEwGreenState out ! 5)"
  "nsShowsRed (intermediate setEwYellowState out ! 5) \<and>
   ewShowsRed (intermediate setEwYellowState out ! 5)"
  "nsShowsRed (intermediate setPedestrianGreenState out ! 5) \<and>
   ewShowsRed (intermediate setPedestrianGreenState out ! 5)"
  by (simp_all add: intermediate_def newWrites_set show_defs pin_defs)

lemma pedestrian_green_after_red:
  "list_all (\<lambda>lv. nsShowsRed lv \<and> ewShowsRed lv)
     (drop 5 (intermediate setPedestrianGreenState out))"
  by (simp add: intermediate_def newWrites_set show_defs pin_defs)

lemma last_intermediate:
  "last (intermediate setNsGreenState out) = level (setNsGreenState out)"
  "last (intermediate setNsYellowState out) = level (setNsYellowState out)"
  "last (intermediate setEwGreenState out) = level (setEwGreenState out)"
  "last (intermediate setEwYellowState out) = level (setEwYellowState out)"
  "last (intermediate setPedestrianGreenState out) = level (setPedestrianGreenState out)"
  by (simp_all add: intermediate_def newWrites_set set_defs)

text \<open>
  C2, as amended. The writes of every \<^verbatim>\<open>set*State\<close> operation are the six writes of
  \<^verbatim>\<open>setAllVehicleRed\<close> followed by two more: the red lamp of the served head off, then
  its green, yellow or pedestrian-green lamp on. After the sixth write both vehicle
  heads show red and nothing else, and the level map the operation leaves is the one
  after its last write. When at most one green or yellow vehicle lamp was lit before
  the operation, at most one is lit after each of its writes: never green or yellow on
  both axes, never green and yellow on one head. The pedestrian green lamp is switched
  on while both vehicle heads show red.
\<close>

theorem baseline_then_assert:
  "newWrites setNsGreenState out =
     newWrites setAllVehicleRed out @ [(PIN_NS_RED, LOW), (PIN_NS_GREEN, HIGH)] \<and>
   newWrites setNsYellowState out =
     newWrites setAllVehicleRed out @ [(PIN_NS_RED, LOW), (PIN_NS_YELLOW, HIGH)] \<and>
   newWrites setEwGreenState out =
     newWrites setAllVehicleRed out @ [(PIN_EW_RED, LOW), (PIN_EW_GREEN, HIGH)] \<and>
   newWrites setEwYellowState out =
     newWrites setAllVehicleRed out @ [(PIN_EW_RED, LOW), (PIN_EW_YELLOW, HIGH)] \<and>
   newWrites setPedestrianGreenState out =
     newWrites setAllVehicleRed out @ [(PIN_PED_RED, LOW), (PIN_PED_GREEN, HIGH)] \<and>
   (nsShowsRed (intermediate setNsGreenState out ! 5) \<and>
    ewShowsRed (intermediate setNsGreenState out ! 5)) \<and>
   (nsShowsRed (intermediate setNsYellowState out ! 5) \<and>
    ewShowsRed (intermediate setNsYellowState out ! 5)) \<and>
   (nsShowsRed (intermediate setEwGreenState out ! 5) \<and>
    ewShowsRed (intermediate setEwGreenState out ! 5)) \<and>
   (nsShowsRed (intermediate setEwYellowState out ! 5) \<and>
    ewShowsRed (intermediate setEwYellowState out ! 5)) \<and>
   (nsShowsRed (intermediate setPedestrianGreenState out ! 5) \<and>
    ewShowsRed (intermediate setPedestrianGreenState out ! 5)) \<and>
   last (intermediate setNsGreenState out) = level (setNsGreenState out) \<and>
   last (intermediate setNsYellowState out) = level (setNsYellowState out) \<and>
   last (intermediate setEwGreenState out) = level (setEwGreenState out) \<and>
   last (intermediate setEwYellowState out) = level (setEwYellowState out) \<and>
   last (intermediate setPedestrianGreenState out) = level (setPedestrianGreenState out) \<and>
   (goLamps (level out) \<le> 1 \<longrightarrow>
      list_all (\<lambda>lv. goLamps lv \<le> 1) (intermediate setNsGreenState out) \<and>
      list_all (\<lambda>lv. goLamps lv \<le> 1) (intermediate setNsYellowState out) \<and>
      list_all (\<lambda>lv. goLamps lv \<le> 1) (intermediate setEwGreenState out) \<and>
      list_all (\<lambda>lv. goLamps lv \<le> 1) (intermediate setEwYellowState out) \<and>
      list_all (\<lambda>lv. goLamps lv \<le> 1) (intermediate setPedestrianGreenState out)) \<and>
   list_all (\<lambda>lv. nsShowsRed lv \<and> ewShowsRed lv)
     (drop 5 (intermediate setPedestrianGreenState out))"
proof -
  have w: "newWrites setNsGreenState out =
     newWrites setAllVehicleRed out @ [(PIN_NS_RED, LOW), (PIN_NS_GREEN, HIGH)]"
    "newWrites setNsYellowState out =
     newWrites setAllVehicleRed out @ [(PIN_NS_RED, LOW), (PIN_NS_YELLOW, HIGH)]"
    "newWrites setEwGreenState out =
     newWrites setAllVehicleRed out @ [(PIN_EW_RED, LOW), (PIN_EW_GREEN, HIGH)]"
    "newWrites setEwYellowState out =
     newWrites setAllVehicleRed out @ [(PIN_EW_RED, LOW), (PIN_EW_YELLOW, HIGH)]"
    "newWrites setPedestrianGreenState out =
     newWrites setAllVehicleRed out @ [(PIN_PED_RED, LOW), (PIN_PED_GREEN, HIGH)]"
    by (simp_all add: newWrites_set)
  have g: "goLamps (level out) \<le> 1 \<longrightarrow>
      list_all (\<lambda>lv. goLamps lv \<le> 1) (intermediate setNsGreenState out) \<and>
      list_all (\<lambda>lv. goLamps lv \<le> 1) (intermediate setNsYellowState out) \<and>
      list_all (\<lambda>lv. goLamps lv \<le> 1) (intermediate setEwGreenState out) \<and>
      list_all (\<lambda>lv. goLamps lv \<le> 1) (intermediate setEwYellowState out) \<and>
      list_all (\<lambda>lv. goLamps lv \<le> 1) (intermediate setPedestrianGreenState out)"
    by (intro impI conjI) (erule goLamps_intermediate)+
  from w all_red_after_baseline [of out] last_intermediate [of out] g
    pedestrian_green_after_red [of out]
  show ?thesis
    apply (elim conjE)
    apply (intro conjI)
    apply assumption+
    done
qed

text \<open>
  C2 as stated fails: two colours of one head are lit together during the baseline
  writes. After \<^verbatim>\<open>setup()\<close> and the first \<^verbatim>\<open>setNsGreenState\<close>, the first write of
  \<^verbatim>\<open>setNsYellowState\<close> lights NS red while NS green is still lit.
\<close>

theorem red_with_old_colour_counterexample:
  "goLamps (level (setNsGreenState (pins (setup_sketch initial)))) \<le> 1 \<and>
   \<not> twoOnOneHead (level (setNsGreenState (pins (setup_sketch initial)))) \<and>
   (intermediate setNsYellowState (setNsGreenState (pins (setup_sketch initial))) ! 0)
     PIN_NS_RED \<and>
   (intermediate setNsYellowState (setNsGreenState (pins (setup_sketch initial))) ! 0)
     PIN_NS_GREEN \<and>
   twoOnOneHead
     (intermediate setNsYellowState (setNsGreenState (pins (setup_sketch initial))) ! 0)"
  by (simp add: intermediate_def newWrites_set goLamps_sum twoOnOneHead_def set_defs
      setup_sketch_def initial_def powerOn_def pin_defs)

theorem baseline_then_assert_witness:
  "goLamps (level (setNsGreenState (pins (setup_sketch initial)))) \<le> 1 \<and>
   list_all (\<lambda>lv. goLamps lv \<le> 1)
     (intermediate setNsYellowState (setNsGreenState (pins (setup_sketch initial)))) \<and>
   list_all (\<lambda>lv. goLamps lv \<le> 1)
     (intermediate setEwGreenState (setNsGreenState (pins (setup_sketch initial)))) \<and>
   list_all (\<lambda>lv. goLamps lv \<le> 1)
     (intermediate setPedestrianGreenState (setNsGreenState (pins (setup_sketch initial))))"
proof -
  have "goLamps (level (setNsGreenState (pins (setup_sketch initial)))) \<le> 1"
    by (simp add: goLamps_sum set_defs pin_defs)
  then show ?thesis
    using baseline_then_assert [of "setNsGreenState (pins (setup_sketch initial))"]
    by simp
qed

end
